theory Spec2Isabelle
  imports Main
begin

section \<open>JavaScript strings and numbers\<close>

text \<open>
  Strings are lists of characters, the UTF-8 bytes of the text. Numbers are JavaScript
  doubles in the source; the model keeps them as unbounded integers, which agrees with
  the source on every value of magnitude below \<open>2 ^ 53\<close>, and writes \<open>NaN\<close> as \<open>None\<close>:
  every comparison with \<open>NaN\<close> is false and \<open>NaN\<close> prints as \<open>NaN\<close>.
\<close>

text \<open>\<open>s.startsWith(p)\<close> and \<open>s.includes(p)\<close>\<close>

fun startsWith :: "string \<Rightarrow> string \<Rightarrow> bool" where
  "startsWith s [] = True"
| "startsWith [] (p # ps) = False"
| "startsWith (x # xs) (p # ps) = (x = p \<and> startsWith xs ps)"

fun includesStr :: "string \<Rightarrow> string \<Rightarrow> bool" where
  "includesStr [] p = (p = [])"
| "includesStr (x # xs) p = (startsWith (x # xs) p \<or> includesStr xs p)"

text \<open>
  The characters that \<open>trim\<close>, \<open>\s\<close> and \<open>parseInt\<close> treat as white space, each as its
  UTF-8 bytes: tab, line feed, vertical tab, form feed, carriage return and space, of one
  byte each, then U+00A0, U+1680, U+2000 to U+200A, U+2028, U+2029, U+202F, U+205F,
  U+3000 and U+FEFF, of two or three bytes each.
\<close>

text \<open>The white space of one byte.\<close>

definition isWhiteSpace :: "char \<Rightarrow> bool" where
  "isWhiteSpace ch =
     (ch = CHR 0x09 \<or> ch = CHR 0x0A \<or> ch = CHR 0x0B \<or> ch = CHR 0x0C \<or> ch = CHR 0x0D \<or> ch = CHR 0x20)"

text \<open>The white space of several bytes.\<close>

definition unicodeWhiteSpace :: "string list" where
  "unicodeWhiteSpace =
     [[CHR 0xC2, CHR 0xA0],
      [CHR 0xE1, CHR 0x9A, CHR 0x80],
      [CHR 0xE2, CHR 0x80, CHR 0x80], [CHR 0xE2, CHR 0x80, CHR 0x81],
      [CHR 0xE2, CHR 0x80, CHR 0x82], [CHR 0xE2, CHR 0x80, CHR 0x83],
      [CHR 0xE2, CHR 0x80, CHR 0x84], [CHR 0xE2, CHR 0x80, CHR 0x85],
      [CHR 0xE2, CHR 0x80, CHR 0x86], [CHR 0xE2, CHR 0x80, CHR 0x87],
      [CHR 0xE2, CHR 0x80, CHR 0x88], [CHR 0xE2, CHR 0x80, CHR 0x89],
      [CHR 0xE2, CHR 0x80, CHR 0x8A],
      [CHR 0xE2, CHR 0x80, CHR 0xA8], [CHR 0xE2, CHR 0x80, CHR 0xA9],
      [CHR 0xE2, CHR 0x80, CHR 0xAF],
      [CHR 0xE2, CHR 0x81, CHR 0x9F],
      [CHR 0xE3, CHR 0x80, CHR 0x80],
      [CHR 0xEF, CHR 0xBB, CHR 0xBF]]"

text \<open>
  The number of bytes of the white-space character a string begins with, 0 when it begins
  with none. A byte with its top bit set begins a character of several bytes.
\<close>

definition whiteSpaceLength :: "string \<Rightarrow> nat" where
  "whiteSpaceLength s =
     (case s of
        [] \<Rightarrow> 0
      | ch # _ \<Rightarrow>
          if digit7 ch
          then (case filter (startsWith s) unicodeWhiteSpace of [] \<Rightarrow> 0 | p # _ \<Rightarrow> length p)
          else if isWhiteSpace ch then 1 else 0)"

text \<open>\<open>s.trimStart()\<close>, \<open>s.trimEnd()\<close> and \<open>s.trim()\<close>\<close>

function trimStart :: "string \<Rightarrow> string" where
  "trimStart s =
     (if whiteSpaceLength s = 0 then s else trimStart (drop (whiteSpaceLength s) s))"
  by pat_completeness auto
termination
proof (relation "measure length")
  fix s :: string
  assume "whiteSpaceLength s \<noteq> 0"
  moreover have "whiteSpaceLength [] = 0"
    by (simp add: whiteSpaceLength_def)
  ultimately have "s \<noteq> []"
    by (cases s) simp_all
  with \<open>whiteSpaceLength s \<noteq> 0\<close>
  show "(drop (whiteSpaceLength s) s, s) \<in> measure length"
    by simp
qed simp

declare trimStart.simps [simp del]

function allWhiteSpace :: "string \<Rightarrow> bool" where
  "allWhiteSpace s =
     (if s = [] then True
      else if whiteSpaceLength s = 0 then False
      else allWhiteSpace (drop (whiteSpaceLength s) s))"
  by pat_completeness auto
termination
  by (relation "measure length") simp_all

declare allWhiteSpace.simps [simp del]

fun trimEnd :: "string \<Rightarrow> string" where
  "trimEnd [] = []"
| "trimEnd (x # xs) = (if allWhiteSpace (x # xs) then [] else x # trimEnd xs)"

definition trim :: "string \<Rightarrow> string" where
  "trim s = trimEnd (trimStart s)"

text \<open>\<open>s.split(sep)\<close> for a separator of one character: never the empty list.\<close>

fun split :: "char \<Rightarrow> string \<Rightarrow> string list" where
  "split sep [] = [[]]"
| "split sep (x # xs) =
     (if x = sep then [] # split sep xs
      else (case split sep xs of [] \<Rightarrow> [[x]] | y # ys \<Rightarrow> (x # y) # ys))"

text \<open>\<open>s.split(/\s+/)\<close>: a run of white space is one separator.\<close>

function splitWs :: "string \<Rightarrow> string list" where
  "splitWs [] = [[]]"
| "splitWs (x # xs) =
     (if whiteSpaceLength (x # xs) \<noteq> 0 then [] # splitWs (trimStart (x # xs))
      else (case splitWs xs of [] \<Rightarrow> [[x]] | y # ys \<Rightarrow> (x # y) # ys))"
  by pat_completeness auto
termination
proof (relation "measure length")
  fix x :: char and xs :: string
  have le: "length (trimStart s) \<le> length s" for s
  proof (induction s rule: trimStart.induct)
    case (1 s)
    show ?case
    proof (cases "whiteSpaceLength s = 0")
      case True
      then show ?thesis by (subst trimStart.simps) simp
    next
      case False
      with 1 have "length (trimStart (drop (whiteSpaceLength s) s)) \<le> length s"
        by (simp add: le_diff_conv)
      with False show ?thesis by (subst trimStart.simps) simp
    qed
  qed
  assume ws: "whiteSpaceLength (x # xs) \<noteq> 0"
  have "length (trimStart (drop (whiteSpaceLength (x # xs)) (x # xs))) < length (x # xs)"
    using le [of "drop (whiteSpaceLength (x # xs)) (x # xs)"] ws by simp
  with ws show "(trimStart (x # xs), x # xs) \<in> measure length"
    by (subst trimStart.simps) simp
qed simp_all

text \<open>\<open>b.replace(/^\* /, '')\<close>\<close>

definition stripStar :: "string \<Rightarrow> string" where
  "stripStar b = (if startsWith b ''* '' then drop 2 b else b)"

text \<open>\<open>parts.join(' ')\<close>\<close>

fun joinSp :: "string list \<Rightarrow> string" where
  "joinSp [] = []"
| "joinSp [x] = x"
| "joinSp (x # y # ys) = x @ '' '' @ joinSp (y # ys)"

text \<open>\<open>s.padStart(n)\<close>\<close>

definition padStart :: "nat \<Rightarrow> string \<Rightarrow> string" where
  "padStart n s = replicate (n - length s) (CHR '' '') @ s"

text \<open>\<open>s.toLowerCase()\<close> on the letters \<open>A\<close> to \<open>Z\<close>\<close>

definition lowerChar :: "char \<Rightarrow> char" where
  "lowerChar ch =
     (if 65 \<le> (of_char ch :: nat) \<and> (of_char ch :: nat) \<le> 90
      then char_of ((of_char ch :: nat) + 32) else ch)"

definition toLowerCase :: "string \<Rightarrow> string" where
  "toLowerCase s = map lowerChar s"

text \<open>\<open>parseInt(s, 10)\<close>: leading white space, a sign, then the longest run of digits.\<close>

definition isDigit :: "char \<Rightarrow> bool" where
  "isDigit ch = (48 \<le> (of_char ch :: nat) \<and> (of_char ch :: nat) \<le> 57)"

definition digitsValue :: "string \<Rightarrow> nat" where
  "digitsValue ds = foldl (\<lambda>acc ch. 10 * acc + ((of_char ch :: nat) - 48)) 0 ds"

definition parseInt :: "string \<Rightarrow> int option" where
  "parseInt s =
     (let t = trimStart s;
          neg = startsWith t ''-'';
          u = (if startsWith t ''-'' \<or> startsWith t ''+'' then drop 1 t else t);
          ds = takeWhile isDigit u
      in if ds = [] then None
         else Some (if neg then - int (digitsValue ds) else int (digitsValue ds)))"

text \<open>An argument that may be \<open>undefined\<close> is converted to the string \<open>undefined\<close> first.\<close>

definition parseIntArg :: "string option \<Rightarrow> int option" where
  "parseIntArg a = parseInt (case a of None \<Rightarrow> ''undefined'' | Some s \<Rightarrow> s)"

text \<open>Numbers in template strings\<close>

fun showNat :: "nat \<Rightarrow> string" where
  "showNat n =
     (if n < 10 then [char_of (48 + n)]
      else showNat (n div 10) @ [char_of (48 + n mod 10)])"

declare showNat.simps [simp del]

definition showInt :: "int \<Rightarrow> string" where
  "showInt i = (if i < 0 then ''-'' @ showNat (nat (- i)) else showNat (nat i))"

definition showNum :: "int option \<Rightarrow> string" where
  "showNum x = (case x of None \<Rightarrow> ''NaN'' | Some i \<Rightarrow> showInt i)"

text \<open>
  \<open>(num / den).toFixed(1)\<close> for a positive quotient whose denominator is a power of two
  (the division is then exact): the nearest tenth, the larger one on a tie.
\<close>

definition toFixed1 :: "int \<Rightarrow> int \<Rightarrow> string" where
  "toFixed1 num den =
     (let n = (20 * num + den) div (2 * den)
      in showInt (n div 10) @ ''.'' @ showInt (n mod 10))"

section \<open>Colours\<close>

datatype color = reset | red | green | yellow | blue | magenta | cyan | dim | bold

fun COLORS :: "color \<Rightarrow> string" where
  "COLORS reset = CHR 0x1B # ''[0m''"
| "COLORS red = CHR 0x1B # ''[31m''"
| "COLORS green = CHR 0x1B # ''[32m''"
| "COLORS yellow = CHR 0x1B # ''[33m''"
| "COLORS blue = CHR 0x1B # ''[34m''"
| "COLORS magenta = CHR 0x1B # ''[35m''"
| "COLORS cyan = CHR 0x1B # ''[36m''"
| "COLORS dim = CHR 0x1B # ''[2m''"
| "COLORS bold = CHR 0x1B # ''[1m''"

definition c :: "color \<Rightarrow> string \<Rightarrow> string" where
  "c col text = COLORS col @ text @ COLORS reset"

text \<open>Symbols printed by the program, as their UTF-8 bytes, and the line feed.\<close>

definition nl :: string where "nl = [CHR 0x0A]"
definition apostrophe :: string where "apostrophe = [CHR 0x27]"
definition symBroom :: string where "symBroom = [CHR 0xF0, CHR 0x9F, CHR 0xA7, CHR 0xB9]"
definition symClipboard :: string where "symClipboard = [CHR 0xF0, CHR 0x9F, CHR 0x93, CHR 0x8B]"
definition symCalendar :: string where "symCalendar = [CHR 0xF0, CHR 0x9F, CHR 0x93, CHR 0x85]"
definition symGhost :: string where "symGhost = [CHR 0xF0, CHR 0x9F, CHR 0x91, CHR 0xBB]"
definition symPackage :: string where "symPackage = [CHR 0xF0, CHR 0x9F, CHR 0x93, CHR 0xA6]"
definition symArrows :: string where "symArrows = [CHR 0xF0, CHR 0x9F, CHR 0x94, CHR 0x84]"
definition symBullet :: string where "symBullet = [CHR 0xE2, CHR 0x80, CHR 0xA2]"
definition symCheck :: string where "symCheck = [CHR 0xE2, CHR 0x9C, CHR 0x93]"
definition symCross :: string where "symCross = [CHR 0xE2, CHR 0x9C, CHR 0x97]"

section \<open>The outside world and the effects of the program\<close>

text \<open>
  The program talks to the git binary through \<open>execSync\<close>, reads the clock, parses a
  date with the \<open>Date\<close> constructor and reads one line from standard input. These are
  the fields of \<open>sys\<close>, over a state \<open>'w\<close> of the outside world (the repository, the
  clock, the unread input) that every external command may change:
  \<^item> \<open>execSync cmd w\<close> is \<open>Inr out\<close> when the command exits with status 0 and printed
    \<open>out\<close>, and \<open>Inl msg\<close> when \<open>execSync\<close> raises an error with message \<open>msg\<close>;
  \<^item> \<open>dateNow w\<close> is \<open>Date.now()\<close>;
  \<^item> \<open>dateParse s\<close> is \<open>new Date(s).getTime()\<close>, \<open>None\<close> for \<open>NaN\<close>;
  \<^item> \<open>question q w\<close> is the line answered to the prompt \<open>q\<close>, \<open>None\<close> when standard
    input ends before a line is read (the callback is then never called).
\<close>

record 'w sys =
  execSync :: "string \<Rightarrow> 'w \<Rightarrow> (string + string) \<times> 'w"
  dateNow :: "'w \<Rightarrow> int"
  dateParse :: "string \<Rightarrow> int option"
  question :: "string \<Rightarrow> 'w \<Rightarrow> string option \<times> 'w"

text \<open>
  What the program does to the world is recorded as a list of events: an external
  command with whether it succeeded, a prompt, a line on standard output or on
  standard error.
\<close>

datatype event = Exec string bool | Ask string | Log string | LogError string

text \<open>
  A computation stops early when an exception is thrown (until a \<open>catch\<close>), when
  \<open>process.exit\<close> is called, or when the awaited answer never comes.
\<close>

datatype halt = Thrown string | Exited int | NoInput

type_synonym ('w, 'a) prog = "'w \<Rightarrow> (halt + 'a) \<times> 'w \<times> event list"

definition returnP :: "'a \<Rightarrow> ('w, 'a) prog" where
  "returnP a w = (Inr a, w, [])"

definition bindP :: "('w, 'a) prog \<Rightarrow> ('a \<Rightarrow> ('w, 'b) prog) \<Rightarrow> ('w, 'b) prog" where
  "bindP m f w =
     (case m w of
        (Inl h, w1, e1) \<Rightarrow> (Inl h, w1, e1)
      | (Inr a, w1, e1) \<Rightarrow> (case f a w1 of (r, w2, e2) \<Rightarrow> (r, w2, e1 @ e2)))"

text \<open>\<open>try { m } catch (e) { k e.message }\<close>: only a thrown exception is caught.\<close>

definition tryCatch :: "('w, 'a) prog \<Rightarrow> (string \<Rightarrow> ('w, 'a) prog) \<Rightarrow> ('w, 'a) prog" where
  "tryCatch m k w =
     (case m w of
        (Inl (Thrown msg), w1, e1) \<Rightarrow> (case k msg w1 of (r, w2, e2) \<Rightarrow> (r, w2, e1 @ e2))
      | (Inl (Exited n), w1, e1) \<Rightarrow> (Inl (Exited n), w1, e1)
      | (Inl NoInput, w1, e1) \<Rightarrow> (Inl NoInput, w1, e1)
      | (Inr a, w1, e1) \<Rightarrow> (Inr a, w1, e1))"

definition processExit :: "int \<Rightarrow> ('w, 'a) prog" where
  "processExit n w = (Inl (Exited n), w, [])"

definition consoleLog :: "string \<Rightarrow> ('w, unit) prog" where
  "consoleLog s w = (Inr (), w, [Log s])"

definition consoleError :: "string \<Rightarrow> ('w, unit) prog" where
  "consoleError s w = (Inr (), w, [LogError s])"

text \<open>\<open>xs.forEach(x => console.log(line x))\<close>, given the lines.\<close>

fun logEach :: "string list \<Rightarrow> ('w, unit) prog" where
  "logEach [] = returnP ()"
| "logEach (l # ls) = bindP (consoleLog l) (\<lambda>_. logEach ls)"

definition now :: "'w sys \<Rightarrow> ('w, int) prog" where
  "now sys w = (Inr (dateNow sys w), w, [])"

section \<open>The functions of \<open>src/index.js\<close>\<close>

text \<open>\<open>run(cmd, options)\<close>; of the options only \<open>ignoreError\<close> changes the result.\<close>

definition run :: "'w sys \<Rightarrow> string \<Rightarrow> bool \<Rightarrow> ('w, string) prog" where
  "run sys cmd ignoreError w =
     (case execSync sys cmd w of
        (Inr out, w1) \<Rightarrow> (Inr (trim out), w1, [Exec cmd True])
      | (Inl msg, w1) \<Rightarrow>
          (if ignoreError then Inr [] else Inl (Thrown msg), w1, [Exec cmd False]))"

definition isGitRepo :: "'w sys \<Rightarrow> ('w, bool) prog" where
  "isGitRepo sys =
     tryCatch (bindP (run sys ''git rev-parse --git-dir'' False) (\<lambda>_. returnP True))
       (\<lambda>_. returnP False)"

text \<open>
  \<open>getDefaultBranch\<close>: the \<open>try\<close> block returns from the function (\<open>Some\<close>) or falls
  through to the fallback (\<open>None\<close>), also when it throws.
\<close>

definition getDefaultBranch :: "'w sys \<Rightarrow> ('w, string) prog" where
  "getDefaultBranch sys =
     bindP
       (tryCatch
          (bindP (run sys ''git remote'' False) (\<lambda>remotes.
             let first = (case split (CHR 0x0A) remotes of [] \<Rightarrow> [] | r # _ \<Rightarrow> r);
                 remote = (if first = [] then ''origin'' else first)
             in bindP (run sys (''git symbolic-ref refs/remotes/'' @ remote @ ''/HEAD'') True)
                  (\<lambda>ref. returnP (if ref \<noteq> [] then Some (last (split (CHR ''/'') ref)) else None))))
          (\<lambda>_. returnP None))
       (\<lambda>early. case early of
          Some found \<Rightarrow> returnP found
        | None \<Rightarrow>
            bindP (run sys ''git branch -a'' False) (\<lambda>branches.
              returnP (if includesStr branches ''main'' then ''main''
                       else if includesStr branches ''master'' then ''master''
                       else ''main'')))"

definition getMergedBranches :: "'w sys \<Rightarrow> ('w, string list) prog" where
  "getMergedBranches sys =
     bindP (run sys ''git branch --show-current'' False) (\<lambda>current.
     bindP (getDefaultBranch sys) (\<lambda>defaultBranch.
     bindP (run sys (''git branch --merged '' @ defaultBranch) True) (\<lambda>out.
     returnP
       (filter (\<lambda>b. b \<noteq> [] \<and> b \<noteq> current \<and> b \<noteq> defaultBranch \<and> \<not> startsWith b ''remotes/'')
          (map (\<lambda>b. stripStar (trim b)) (split (CHR 0x0A) out))))))"

record staleBranch =
  branch :: string
  daysAgo :: int

text \<open>The \<open>for\<close> loop of \<open>getStaleBranches\<close>; \<open>cutoff\<close> is \<open>None\<close> when it is \<open>NaN\<close>.\<close>

fun staleLoop :: "'w sys \<Rightarrow> int option \<Rightarrow> string list \<Rightarrow> staleBranch list \<Rightarrow> ('w, staleBranch list) prog" where
  "staleLoop sys cutoff [] stale = returnP stale"
| "staleLoop sys cutoff (b # bs) stale =
     bindP
       (tryCatch
          (bindP (run sys (''git log -1 --format=%ci '' @ b) False) (\<lambda>dateStr.
             case (dateParse sys dateStr, cutoff) of
               (Some lastCommit, Some co) \<Rightarrow>
                 (if lastCommit < co
                  then bindP (now sys) (\<lambda>t.
                         returnP (stale @ [\<lparr>branch = b, daysAgo = (t - lastCommit) div (24 * 60 * 60 * 1000)\<rparr>]))
                  else returnP stale)
             | _ \<Rightarrow> returnP stale))
          (\<lambda>_. returnP stale))
       (\<lambda>stale1. staleLoop sys cutoff bs stale1)"

definition getStaleBranches :: "'w sys \<Rightarrow> int option \<Rightarrow> ('w, staleBranch list) prog" where
  "getStaleBranches sys days =
     bindP (run sys ''git branch --show-current'' False) (\<lambda>current.
     bindP (getDefaultBranch sys) (\<lambda>defaultBranch.
     bindP (now sys) (\<lambda>t0.
     let cutoff = (case days of None \<Rightarrow> None | Some d \<Rightarrow> Some (t0 - d * 24 * 60 * 60 * 1000))
     in
     bindP (run sys ''git branch'' False) (\<lambda>out.
     let branches =
           filter (\<lambda>b. b \<noteq> [] \<and> b \<noteq> current \<and> b \<noteq> defaultBranch)
             (map (\<lambda>b. stripStar (trim b)) (split (CHR 0x0A) out))
     in
     bindP (staleLoop sys cutoff branches []) (\<lambda>stale.
     returnP (sort_key (\<lambda>x. - daysAgo x) stale))))))"

definition getGoneBranches :: "'w sys \<Rightarrow> ('w, string list) prog" where
  "getGoneBranches sys =
     bindP (run sys ''git fetch --prune'' True) (\<lambda>_.
     bindP (run sys ''git branch -vv'' False) (\<lambda>out.
     returnP
       (map (\<lambda>line. stripStar (case splitWs (trim line) of [] \<Rightarrow> [] | t # _ \<Rightarrow> t))
          (filter (\<lambda>line. includesStr line '': gone]'') (split (CHR 0x0A) out)))))"

record largeFile =
  hash :: "string option"
  sizeNum :: "int option"
  sizeStr :: string
  path :: string

definition parseLargeLine :: "string \<Rightarrow> largeFile" where
  "parseLargeLine line =
     (let parts = splitWs line;
          n = parseIntArg (case parts of _ # s # _ \<Rightarrow> Some s | _ \<Rightarrow> None)
      in \<lparr>hash = (case parts of [] \<Rightarrow> None | h # _ \<Rightarrow> Some h),
          sizeNum = n,
          sizeStr =
            (case n of
               None \<Rightarrow> showNum n @ '' B''
             | Some k \<Rightarrow>
                 if k > 1024 * 1024 then toFixed1 k (1024 * 1024) @ '' MB''
                 else if k > 1024 then toFixed1 k 1024 @ '' KB''
                 else showNum n @ '' B''),
          path = joinSp (drop 2 parts)\<rparr>)"

definition largeCmd :: "int option \<Rightarrow> string" where
  "largeCmd count =
     ''git rev-list --objects --all | git cat-file --batch-check='' @ apostrophe
     @ ''%(objecttype) %(objectname) %(objectsize) %(rest)'' @ apostrophe
     @ '' | sed -n '' @ apostrophe @ ''s/^blob //p'' @ apostrophe
     @ '' | sort -rnk2 | head -'' @ showNum count"

definition getLargeFiles :: "'w sys \<Rightarrow> int option \<Rightarrow> ('w, largeFile list) prog" where
  "getLargeFiles sys count =
     tryCatch
       (bindP (run sys (largeCmd count) True) (\<lambda>result.
          if result = [] then returnP []
          else returnP (map parseLargeLine (filter (\<lambda>l. l \<noteq> []) (split (CHR 0x0A) result)))))
       (\<lambda>_. returnP [])"

definition deleteBranch :: "'w sys \<Rightarrow> string \<Rightarrow> bool \<Rightarrow> ('w, bool) prog" where
  "deleteBranch sys b force =
     (let flag = (if force then ''-D'' else ''-d'')
      in tryCatch (bindP (run sys (''git branch '' @ flag @ '' '' @ b) False) (\<lambda>_. returnP True))
           (\<lambda>_. returnP False))"

definition confirm :: "'w sys \<Rightarrow> string \<Rightarrow> ('w, bool) prog" where
  "confirm sys q w =
     (case question sys q w of
        (Some answer, w1) \<Rightarrow> (Inr (startsWith (toLowerCase answer) ''y''), w1, [Ask q])
      | (None, w1) \<Rightarrow> (Inl NoInput, w1, [Ask q]))"

section \<open>\<open>main\<close>\<close>

definition helpText :: string where
  "helpText =
     nl @ concat (map (\<lambda>l. l @ nl)
       [c bold ''git-cleanup'' @ '' - Clean up your git repository'',
        [],
        c yellow ''USAGE'',
        ''  git-cleanup <command> [options]'',
        [],
        c yellow ''COMMANDS'',
        ''  '' @ c green ''merged'' @ ''      List and delete branches merged into main/master'',
        ''  '' @ c green ''stale'' @ ''       List and delete branches with no recent commits'',
        ''  '' @ c green ''gone'' @ ''        Delete branches whose remote tracking branch is gone'',
        ''  '' @ c green ''large'' @ ''       Find large files in git history'',
        ''  '' @ c green ''all'' @ ''         Run all cleanup checks'',
        ''  '' @ c green ''prune'' @ ''       Prune remote tracking branches'',
        [],
        c yellow ''OPTIONS'',
        ''  --days <n>    Days threshold for stale branches (default: 30)'',
        ''  --dry-run     Show what would be deleted without deleting'',
        ''  --force       Delete without confirmation'',
        ''  --top <n>     Number of large files to show (default: 10)'',
        [],
        c yellow ''EXAMPLES'',
        ''  git-cleanup merged           # Delete merged branches'',
        ''  git-cleanup stale --days 60  # Find branches inactive for 60+ days'',
        ''  git-cleanup large --top 20   # Show top 20 large files'',
        ''  git-cleanup all --dry-run    # Preview all cleanup actions''])"

text \<open>
  The deletion batch that \<open>main\<close> has once for each of the merged, stale and gone
  branches: the loop over the branches, then the report. \<open>force\<close> is the second
  argument given to \<open>deleteBranch\<close> there, \<open>deleted\<close> the counter.
\<close>

fun deleteLoop :: "'w sys \<Rightarrow> bool \<Rightarrow> string list \<Rightarrow> nat \<Rightarrow> ('w, nat) prog" where
  "deleteLoop sys force [] deleted = returnP deleted"
| "deleteLoop sys force (b # bs) deleted =
     bindP (deleteBranch sys b force) (\<lambda>ok.
       if ok
       then bindP (consoleLog (''   '' @ c green symCheck @ '' Deleted '' @ b))
              (\<lambda>_. deleteLoop sys force bs (deleted + 1))
       else bindP (consoleLog (''   '' @ c red symCross @ '' Failed to delete '' @ b))
              (\<lambda>_. deleteLoop sys force bs deleted))"

definition deletedLine :: "nat \<Rightarrow> nat \<Rightarrow> string" where
  "deletedLine deleted attempted =
     c green (nl @ ''   Deleted '' @ showNat deleted @ ''/'' @ showNat attempted @ '' branches'' @ nl)"

definition deleteBatch :: "'w sys \<Rightarrow> bool \<Rightarrow> string list \<Rightarrow> ('w, unit) prog" where
  "deleteBatch sys force bs =
     bindP (deleteLoop sys force bs 0) (\<lambda>deleted. consoleLog (deletedLine deleted (length bs)))"

text \<open>
  The blocks of \<open>main\<close> for the commands \<open>merged\<close>, \<open>stale\<close>, \<open>gone\<close>, \<open>large\<close> and
  \<open>prune\<close>, one definition for each, in the order of the source.
\<close>

definition mergedSection :: "'w sys \<Rightarrow> bool \<Rightarrow> bool \<Rightarrow> ('w, unit) prog" where
  "mergedSection sys dryRun force =
     bindP (consoleLog (c bold (symClipboard @ '' Merged Branches''))) (\<lambda>_.
     bindP (getMergedBranches sys) (\<lambda>merged.
     if length merged = 0
     then consoleLog (c dim (''   No merged branches to clean up'' @ nl))
     else
       bindP (consoleLog (c dim (''   Found '' @ showNat (length merged) @ '' merged branch(es):'' @ nl))) (\<lambda>_.
       bindP (logEach (map (\<lambda>b. ''   '' @ c yellow symBullet @ '' '' @ b) merged)) (\<lambda>_.
       bindP (consoleLog []) (\<lambda>_.
       if \<not> dryRun
       then
         bindP (if force then returnP True
                else confirm sys (''   Delete '' @ showNat (length merged) @ '' merged branch(es)? [y/N] ''))
           (\<lambda>shouldDelete.
              if shouldDelete
              then deleteBatch sys False merged
              else returnP ())
       else returnP ())))))"

definition staleSection :: "'w sys \<Rightarrow> bool \<Rightarrow> bool \<Rightarrow> int option \<Rightarrow> ('w, unit) prog" where
  "staleSection sys dryRun force days =
     bindP (consoleLog (c bold (symCalendar @ '' Stale Branches (>'' @ showNum days @ '' days)''))) (\<lambda>_.
     bindP (getStaleBranches sys days) (\<lambda>stale.
     if length stale = 0
     then consoleLog (c dim (''   No stale branches found'' @ nl))
     else
       bindP (consoleLog (c dim (''   Found '' @ showNat (length stale) @ '' stale branch(es):'' @ nl))) (\<lambda>_.
       bindP (logEach (map (\<lambda>x. ''   '' @ c yellow symBullet @ '' '' @ branch x @ '' ''
                                 @ c dim (''('' @ showInt (daysAgo x) @ '' days ago)'')) stale)) (\<lambda>_.
       bindP (consoleLog []) (\<lambda>_.
       if \<not> dryRun
       then
         bindP (if force then returnP True
                else confirm sys (''   Delete '' @ showNat (length stale) @ '' stale branch(es)? [y/N] ''))
           (\<lambda>shouldDelete.
              if shouldDelete
              then deleteBatch sys True (map branch stale)
              else returnP ())
       else returnP ())))))"

definition goneSection :: "'w sys \<Rightarrow> bool \<Rightarrow> bool \<Rightarrow> ('w, unit) prog" where
  "goneSection sys dryRun force =
     bindP (consoleLog (c bold (symGhost @ '' Gone Branches (remote deleted)''))) (\<lambda>_.
     bindP (getGoneBranches sys) (\<lambda>gone.
     if length gone = 0
     then consoleLog (c dim (''   No gone branches found'' @ nl))
     else
       bindP (consoleLog (c dim (''   Found '' @ showNat (length gone) @ '' gone branch(es):'' @ nl))) (\<lambda>_.
       bindP (logEach (map (\<lambda>b. ''   '' @ c yellow symBullet @ '' '' @ b) gone)) (\<lambda>_.
       bindP (consoleLog []) (\<lambda>_.
       if \<not> dryRun
       then
         bindP (if force then returnP True
                else confirm sys (''   Delete '' @ showNat (length gone) @ '' gone branch(es)? [y/N] ''))
           (\<lambda>shouldDelete.
              if shouldDelete
              then deleteBatch sys True gone
              else returnP ())
       else returnP ())))))"

definition largeSection :: "'w sys \<Rightarrow> int option \<Rightarrow> ('w, unit) prog" where
  "largeSection sys topN =
     bindP (consoleLog (c bold (symPackage @ '' Large Files in History (top '' @ showNum topN @ '')''))) (\<lambda>_.
     bindP (getLargeFiles sys topN) (\<lambda>large.
     if length large = 0
     then consoleLog (c dim (''   No large files found'' @ nl))
     else
       bindP (consoleLog []) (\<lambda>_.
       bindP (logEach (map (\<lambda>f. ''   '' @ c (if includesStr (sizeStr f) ''MB'' then red else yellow)
                                           (padStart 10 (sizeStr f)) @ ''  '' @ path f) large)) (\<lambda>_.
       consoleLog (c dim (nl @ ''   Tip: Use '' @ apostrophe @ ''git filter-repo'' @ apostrophe
                          @ '' or BFG to remove large files from history'' @ nl))))))"

definition pruneSection :: "'w sys \<Rightarrow> ('w, unit) prog" where
  "pruneSection sys =
     bindP (consoleLog (c bold (symArrows @ '' Pruning Remote Tracking Branches''))) (\<lambda>_.
     tryCatch
       (bindP (run sys ''git fetch --prune'' False) (\<lambda>_.
          consoleLog (c green (''   '' @ symCheck @ '' Pruned remote tracking branches'' @ nl))))
       (\<lambda>msg. consoleLog (c red (''   '' @ symCross @ '' Failed to prune: '' @ msg @ nl))))"

text \<open>\<open>args[args.indexOf(flag) + 1]\<close>, \<open>None\<close> when it is \<open>undefined\<close>.\<close>

definition argAfter :: "string \<Rightarrow> string list \<Rightarrow> string option" where
  "argAfter flag args =
     (case dropWhile (\<lambda>a. a \<noteq> flag) args of _ # v # _ \<Rightarrow> Some v | _ \<Rightarrow> None)"

text \<open>\<open>args[0]\<close>, \<open>None\<close> when it is \<open>undefined\<close>.\<close>

definition firstArg :: "string list \<Rightarrow> string option" where
  "firstArg args = (case args of [] \<Rightarrow> None | a # _ \<Rightarrow> Some a)"

text \<open>
  \<open>main\<close>, with \<open>args = process.argv.slice(2)\<close>. \<open>mainBody\<close> is the part of \<open>main\<close>
  that follows the repository check.
\<close>

definition mainBody :: "'w sys \<Rightarrow> string list \<Rightarrow> ('w, unit) prog" where
  "mainBody sys args =
     (let command = firstArg args;
          dryRun = (''--dry-run'' \<in> set args);
          force = (''--force'' \<in> set args);
          days = (if ''--days'' \<in> set args then parseIntArg (argAfter ''--days'' args) else Some 30);
          topN = (if ''--top'' \<in> set args then parseIntArg (argAfter ''--top'' args) else Some 10)
      in
      bindP (consoleLog (c cyan (nl @ symBroom @ '' git-cleanup'' @ nl))) (\<lambda>_.
      bindP (if command = Some ''merged'' \<or> command = Some ''all''
             then mergedSection sys dryRun force else returnP ()) (\<lambda>_.
      bindP (if command = Some ''stale'' \<or> command = Some ''all''
             then staleSection sys dryRun force days else returnP ()) (\<lambda>_.
      bindP (if command = Some ''gone'' \<or> command = Some ''all''
             then goneSection sys dryRun force else returnP ()) (\<lambda>_.
      bindP (if command = Some ''large'' \<or> command = Some ''all''
             then largeSection sys topN else returnP ()) (\<lambda>_.
      bindP (if command = Some ''prune'' then pruneSection sys else returnP ()) (\<lambda>_.
      consoleLog (c dim (''Done!'' @ nl)))))))))"

definition main :: "'w sys \<Rightarrow> string list \<Rightarrow> ('w, unit) prog" where
  "main sys args =
     (let command = firstArg args
      in
      if command = Some ''--help'' \<or> command = Some ''-h'' \<or> command = None \<or> command = Some []
      then consoleLog helpText
      else
        bindP (isGitRepo sys) (\<lambda>repo.
        bindP (if \<not> repo
               then bindP (consoleError (c red ''Error: Not a git repository'')) (\<lambda>_. processExit 1)
               else returnP ()) (\<lambda>_.
        mainBody sys args)))"

text \<open>
  The process: \<open>main().catch(console.error)\<close>. The exit code is the argument of
  \<open>process.exit\<close> when it was called; otherwise the process ends by itself, with code 0,
  also after \<open>console.error\<close> has printed a rejection of \<open>main\<close> and when the awaited
  answer never comes.
\<close>

definition exitCode :: "(halt + unit) \<Rightarrow> int" where
  "exitCode r = (case r of Inl (Exited n) \<Rightarrow> n | _ \<Rightarrow> 0)"

section \<open>Observing a run\<close>

abbreviation outcome :: "(halt + 'a) \<times> 'w \<times> event list \<Rightarrow> halt + 'a" where
  "outcome r \<equiv> fst r"

abbreviation world :: "(halt + 'a) \<times> 'w \<times> event list \<Rightarrow> 'w" where
  "world r \<equiv> fst (snd r)"

abbreviation events :: "(halt + 'a) \<times> 'w \<times> event list \<Rightarrow> event list" where
  "events r \<equiv> snd (snd r)"

text \<open>A delete call is a command that \<open>deleteBranch\<close> builds.\<close>

definition isDeleteCmd :: "string \<Rightarrow> bool" where
  "isDeleteCmd cmd = (startsWith cmd ''git branch -d '' \<or> startsWith cmd ''git branch -D '')"

fun isDeleteCall :: "event \<Rightarrow> bool" where
  "isDeleteCall (Exec cmd ok) = isDeleteCmd cmd"
| "isDeleteCall (Ask q) = False"
| "isDeleteCall (Log s) = False"
| "isDeleteCall (LogError s) = False"

fun isDeleteSuccess :: "event \<Rightarrow> bool" where
  "isDeleteSuccess (Exec cmd ok) = (isDeleteCmd cmd \<and> ok)"
| "isDeleteSuccess (Ask q) = False"
| "isDeleteSuccess (Log s) = False"
| "isDeleteSuccess (LogError s) = False"

fun isPrompt :: "event \<Rightarrow> bool" where
  "isPrompt (Ask q) = True"
| "isPrompt (Exec cmd ok) = False"
| "isPrompt (Log s) = False"
| "isPrompt (LogError s) = False"

text \<open>The commands among the events, in order.\<close>

fun commands :: "event list \<Rightarrow> string list" where
  "commands [] = []"
| "commands (Exec cmd ok # es) = cmd # commands es"
| "commands (Ask q # es) = commands es"
| "commands (Log s # es) = commands es"
| "commands (LogError s # es) = commands es"

text \<open>The command that \<open>deleteBranch\<close> runs.\<close>

definition deleteCmd :: "bool \<Rightarrow> string \<Rightarrow> string" where
  "deleteCmd force b = ''git branch '' @ (if force then ''-D'' else ''-d'') @ '' '' @ b"

text \<open>The delete calls among the events, in order.\<close>

definition deleteCmds :: "event list \<Rightarrow> string list" where
  "deleteCmds es = filter isDeleteCmd (commands es)"

text \<open>Every event of every run of a computation satisfies \<open>Q\<close>.\<close>

definition emitsOnly :: "(event \<Rightarrow> bool) \<Rightarrow> ('w, 'a) prog \<Rightarrow> bool" where
  "emitsOnly Q p = (\<forall>w. list_all Q (events (p w)))"

text \<open>\<open>Q\<close> holds of every output line and of every command that is not a delete call.\<close>

definition allowsQueries :: "(event \<Rightarrow> bool) \<Rightarrow> bool" where
  "allowsQueries Q =
     ((\<forall>s. Q (Log s)) \<and> (\<forall>s. Q (LogError s)) \<and> (\<forall>cmd ok. \<not> isDeleteCmd cmd \<longrightarrow> Q (Exec cmd ok)))"

text \<open>A computation stops early only for a reason that satisfies \<open>H\<close>.\<close>

definition haltsOnly :: "(halt \<Rightarrow> bool) \<Rightarrow> ('w, 'a) prog \<Rightarrow> bool" where
  "haltsOnly H p = (\<forall>w h. outcome (p w) = Inl h \<longrightarrow> H h)"

text \<open>A command that succeeds in every state of the world.\<close>

definition alwaysSucceeds :: "'w sys \<Rightarrow> string \<Rightarrow> bool" where
  "alwaysSucceeds sys cmd = (\<forall>w. \<exists>out. fst (execSync sys cmd w) = Inr out)"

text \<open>The four branch listings that are run without \<open>ignoreError\<close> and outside any \<open>try\<close>.\<close>

definition listingsSucceed :: "'w sys \<Rightarrow> bool" where
  "listingsSucceed sys =
     (alwaysSucceeds sys ''git branch --show-current'' \<and> alwaysSucceeds sys ''git branch -a''
      \<and> alwaysSucceeds sys ''git branch'' \<and> alwaysSucceeds sys ''git branch -vv'')"

text \<open>The help banner is shown: \<open>command === '--help' || command === '-h' || !command\<close>.\<close>

definition isHelp :: "string list \<Rightarrow> bool" where
  "isHelp args = (firstArg args = Some ''--help'' \<or> firstArg args = Some ''-h''
                  \<or> firstArg args = None \<or> firstArg args = Some [])"

text \<open>
  The deletion block of a section is reached: the run is not a dry run, and it is forced
  or the answer to the prompt \<open>q\<close>, asked in the state \<open>w\<close>, begins with \<open>y\<close> or \<open>Y\<close>.
\<close>

definition deletionProceeds :: "'w sys \<Rightarrow> bool \<Rightarrow> bool \<Rightarrow> string \<Rightarrow> 'w \<Rightarrow> bool" where
  "deletionProceeds sys dryRun force q w =
     (\<not> dryRun \<and>
      (force \<or> (case fst (question sys q w) of
                   None \<Rightarrow> False
                 | Some answer \<Rightarrow> startsWith (toLowerCase answer) ''y'')))"

section \<open>Example systems\<close>

text \<open>A terminal that answers every prompt with the line \<open>a\<close>; every command fails.\<close>

definition answering :: "string \<Rightarrow> unit sys" where
  "answering a =
     \<lparr>execSync = (\<lambda>cmd w. (Inl ''Command failed'', w)), dateNow = (\<lambda>w. 0),
      dateParse = (\<lambda>s. None), question = (\<lambda>q w. (Some a, w))\<rparr>"

text \<open>
  A repository where the git binary does not know \<open>--show-current\<close> (git before 2.22):
  that command fails, the others work. The branch \<open>old\<close> has lost its remote.
\<close>

definition oldGitExec :: "string \<Rightarrow> unit \<Rightarrow> (string + string) \<times> unit" where
  "oldGitExec cmd w =
     (if cmd = ''git rev-parse --git-dir'' then (Inr (''.git'' @ nl), w)
      else if cmd = ''git branch --show-current''
        then (Inl ''Command failed: git branch --show-current'', w)
      else if cmd = ''git remote'' then (Inr (''origin'' @ nl), w)
      else if cmd = ''git symbolic-ref refs/remotes/origin/HEAD''
        then (Inr (''refs/remotes/origin/main'' @ nl), w)
      else if cmd = ''git branch'' then (Inr (''* dev'' @ nl @ ''  main'' @ nl @ ''  old'' @ nl), w)
      else if cmd = ''git branch -vv''
        then (Inr (''* dev 1a2b3c4 [origin/dev] work'' @ nl @ ''  old 5d6e7f8 [origin/old: gone] done'' @ nl), w)
      else if cmd = ''git fetch --prune'' then (Inr [], w)
      else (Inl (''Command failed: '' @ cmd), w))"

definition oldGitSys :: "unit sys" where
  "oldGitSys = \<lparr>execSync = oldGitExec, dateNow = (\<lambda>w. 0), dateParse = (\<lambda>s. None),
                 question = (\<lambda>q w. (None, w))\<rparr>"

text \<open>
  A repository where only the repository check and the four branch listings work;
  every other command fails.
\<close>

definition flakyExec :: "string \<Rightarrow> unit \<Rightarrow> (string + string) \<times> unit" where
  "flakyExec cmd w =
     (if cmd = ''git rev-parse --git-dir'' then (Inr (''.git'' @ nl), w)
      else if cmd = ''git branch --show-current'' then (Inr (''dev'' @ nl), w)
      else if cmd = ''git branch -a'' then (Inr (''* dev'' @ nl @ ''  main'' @ nl @ ''  old'' @ nl), w)
      else if cmd = ''git branch'' then (Inr (''* dev'' @ nl @ ''  main'' @ nl @ ''  old'' @ nl), w)
      else if cmd = ''git branch -vv''
        then (Inr (''* dev 1a2b3c4 [origin/dev] work'' @ nl @ ''  old 5d6e7f8 [origin/old: gone] done'' @ nl), w)
      else (Inl (''Command failed: '' @ cmd), w))"

definition flakySys :: "unit sys" where
  "flakySys = \<lparr>execSync = flakyExec, dateNow = (\<lambda>w. 0), dateParse = (\<lambda>s. None),
                question = (\<lambda>q w. (None, w))\<rparr>"

text \<open>
  A repository on the branch \<open>dev\<close>, with the remote \<open>origin\<close> whose default branch is
  \<open>main\<close>. The state of the world is the list of the other local branches. The
  branches named \<open>feature/...\<close> are merged into \<open>main\<close>; the upstream of \<open>old\<close> is
  gone; the last commits of \<open>old\<close>, \<open>edge\<close> and \<open>recent\<close> are 61, 60 and 59 days before
  the clock's 2024-06-01 12:00:00 UTC, those of the other branches 10 days before it.
  Deleting a branch that exists succeeds and removes it. The terminal answers every
  prompt with \<open>answer\<close>, or has ended when \<open>answer\<close> is \<open>None\<close>.
\<close>

definition demoLastCommit :: "string \<Rightarrow> string" where
  "demoLastCommit b =
     (if b = ''old'' then ''2024-04-01 12:00:00 +0000''
      else if b = ''edge'' then ''2024-04-02 12:00:00 +0000''
      else if b = ''recent'' then ''2024-04-03 12:00:00 +0000''
      else ''2024-05-22 12:00:00 +0000'')"

definition demoDateParse :: "string \<Rightarrow> int option" where
  "demoDateParse s =
     (if s = ''2024-04-01 12:00:00 +0000'' then Some 1711972800000
      else if s = ''2024-04-02 12:00:00 +0000'' then Some 1712059200000
      else if s = ''2024-04-03 12:00:00 +0000'' then Some 1712145600000
      else if s = ''2024-05-22 12:00:00 +0000'' then Some 1716379200000
      else None)"

definition demoExec :: "string \<Rightarrow> string list \<Rightarrow> (string + string) \<times> string list" where
  "demoExec cmd w =
     (if cmd = ''git rev-parse --git-dir'' then (Inr (''.git'' @ nl), w)
      else if cmd = ''git branch --show-current'' then (Inr (''dev'' @ nl), w)
      else if cmd = ''git remote'' then (Inr (''origin'' @ nl), w)
      else if cmd = ''git symbolic-ref refs/remotes/origin/HEAD''
        then (Inr (''refs/remotes/origin/main'' @ nl), w)
      else if cmd = ''git branch''
        then (Inr (''* dev'' @ nl @ concat (map (\<lambda>b. ''  '' @ b @ nl) w) @ ''  main'' @ nl), w)
      else if cmd = ''git branch --merged main''
        then (Inr (''* dev'' @ nl
                   @ concat (map (\<lambda>b. ''  '' @ b @ nl) (filter (\<lambda>b. startsWith b ''feature/'') w))
                   @ ''  main'' @ nl), w)
      else if cmd = ''git fetch --prune'' then (Inr [], w)
      else if cmd = ''git branch -vv''
        then (Inr (''* dev 1a2b3c4 [origin/dev] work'' @ nl
                   @ concat (map (\<lambda>b. ''  '' @ b @ '' 5d6e7f8 [origin/'' @ b
                                       @ (if b = ''old'' then '': gone'' else []) @ ''] work'' @ nl) w)
                   @ ''  main 9f8e7d6 [origin/main] work'' @ nl), w)
      else if startsWith cmd ''git log -1 --format=%ci ''
        then (if drop 24 cmd \<in> set w then (Inr (demoLastCommit (drop 24 cmd) @ nl), w)
              else (Inl (''Command failed: '' @ cmd), w))
      else if startsWith cmd ''git branch -d '' \<or> startsWith cmd ''git branch -D ''
        then (if drop 14 cmd \<in> set w
              then (Inr (''Deleted branch '' @ drop 14 cmd @ ''.'' @ nl), removeAll (drop 14 cmd) w)
              else (Inl (''Command failed: '' @ cmd), w))
      else (Inl (''Command failed: '' @ cmd), w))"

definition demoSys :: "string option \<Rightarrow> string list sys" where
  "demoSys answer =
     \<lparr>execSync = demoExec, dateNow = (\<lambda>w. 1717243200000), dateParse = demoDateParse,
      question = (\<lambda>q w. (answer, w))\<rparr>"

text \<open>
  A repository without a remote whose local branches are \<open>maintenance\<close> (checked out) and
  \<open>master\<close>: \<open>git remote\<close> prints nothing and there is no \<open>refs/remotes/origin/HEAD\<close>.
\<close>

definition maintenanceExec :: "string \<Rightarrow> unit \<Rightarrow> (string + string) \<times> unit" where
  "maintenanceExec cmd w =
     (if cmd = ''git rev-parse --git-dir'' then (Inr (''.git'' @ nl), w)
      else if cmd = ''git branch --show-current'' then (Inr (''maintenance'' @ nl), w)
      else if cmd = ''git remote'' then (Inr [], w)
      else if cmd = ''git branch -a'' then (Inr (''* maintenance'' @ nl @ ''  master'' @ nl), w)
      else if cmd = ''git branch'' then (Inr (''* maintenance'' @ nl @ ''  master'' @ nl), w)
      else if cmd = ''git branch --merged master''
        then (Inr (''* maintenance'' @ nl @ ''  master'' @ nl), w)
      else (Inl (''Command failed: '' @ cmd), w))"

definition maintenanceSys :: "unit sys" where
  "maintenanceSys =
     \<lparr>execSync = maintenanceExec, dateNow = (\<lambda>w. 1717243200000), dateParse = (\<lambda>s. None),
      question = (\<lambda>q w. (None, w))\<rparr>"

section \<open>Sequencing, and what a computation can emit\<close>

lemma returnP_proj [simp]:
  "outcome (returnP a w) = Inr a" "world (returnP a w) = w" "events (returnP a w) = []"
  by (simp_all add: returnP_def)

lemma consoleLog_proj [simp]:
  "outcome (consoleLog s w) = Inr ()" "world (consoleLog s w) = w" "events (consoleLog s w) = [Log s]"
  by (simp_all add: consoleLog_def)

lemma consoleError_proj [simp]:
  "outcome (consoleError s w) = Inr ()" "world (consoleError s w) = w"
  "events (consoleError s w) = [LogError s]"
  by (simp_all add: consoleError_def)

lemma processExit_proj [simp]:
  "outcome (processExit n w) = Inl (Exited n)" "world (processExit n w) = w"
  "events (processExit n w) = []"
  by (simp_all add: processExit_def)

lemma now_proj [simp]:
  "outcome (now sys w) = Inr (dateNow sys w)" "world (now sys w) = w" "events (now sys w) = []"
  by (simp_all add: now_def)

lemma outcome_bindP:
  "outcome (bindP m f w) = (case outcome (m w) of Inl h \<Rightarrow> Inl h | Inr a \<Rightarrow> outcome (f a (world (m w))))"
  by (simp add: bindP_def split: prod.splits sum.splits)

lemma world_bindP:
  "world (bindP m f w) = (case outcome (m w) of Inl h \<Rightarrow> world (m w) | Inr a \<Rightarrow> world (f a (world (m w))))"
  by (simp add: bindP_def split: prod.splits sum.splits)

lemma events_bindP:
  "events (bindP m f w) = events (m w) @ (case outcome (m w) of Inl h \<Rightarrow> [] | Inr a \<Rightarrow> events (f a (world (m w))))"
  by (simp add: bindP_def split: prod.splits sum.splits)

lemma emitsOnly_returnP [intro!]: "emitsOnly Q (returnP a)"
  by (simp add: emitsOnly_def)

lemma emitsOnly_processExit [intro!]: "emitsOnly Q (processExit n)"
  by (simp add: emitsOnly_def)

lemma emitsOnly_now [intro!]: "emitsOnly Q (now sys)"
  by (simp add: emitsOnly_def)

lemma emitsOnly_bindP [intro!]:
  "emitsOnly Q m \<Longrightarrow> (\<And>a. emitsOnly Q (f a)) \<Longrightarrow> emitsOnly Q (bindP m f)"
  by (auto simp: emitsOnly_def events_bindP split: sum.splits)

lemma outcome_tryCatch:
  "outcome (tryCatch m k w) =
     (case outcome (m w) of
        Inl (Thrown msg) \<Rightarrow> outcome (k msg (world (m w)))
      | Inl (Exited n) \<Rightarrow> Inl (Exited n)
      | Inl NoInput \<Rightarrow> Inl NoInput
      | Inr a \<Rightarrow> Inr a)"
  by (simp add: tryCatch_def split: prod.splits sum.splits halt.splits)

lemma world_tryCatch:
  "world (tryCatch m k w) =
     (case outcome (m w) of
        Inl (Thrown msg) \<Rightarrow> world (k msg (world (m w)))
      | Inl (Exited n) \<Rightarrow> world (m w)
      | Inl NoInput \<Rightarrow> world (m w)
      | Inr a \<Rightarrow> world (m w))"
  by (simp add: tryCatch_def split: prod.splits sum.splits halt.splits)

lemma events_tryCatch:
  "events (tryCatch m k w) =
     events (m w) @
     (case outcome (m w) of
        Inl (Thrown msg) \<Rightarrow> events (k msg (world (m w)))
      | Inl (Exited n) \<Rightarrow> []
      | Inl NoInput \<Rightarrow> []
      | Inr a \<Rightarrow> [])"
  by (simp add: tryCatch_def split: prod.splits sum.splits halt.splits)

lemma emitsOnly_tryCatch [intro!]:
  "emitsOnly Q m \<Longrightarrow> (\<And>msg. emitsOnly Q (k msg)) \<Longrightarrow> emitsOnly Q (tryCatch m k)"
  by (auto simp: emitsOnly_def events_tryCatch split: sum.splits halt.splits)

lemma emitsOnly_consoleLog: "Q (Log s) \<Longrightarrow> emitsOnly Q (consoleLog s)"
  by (simp add: emitsOnly_def)

lemma emitsOnly_consoleError: "Q (LogError s) \<Longrightarrow> emitsOnly Q (consoleError s)"
  by (simp add: emitsOnly_def)

lemma emitsOnly_run: "(\<And>ok. Q (Exec cmd ok)) \<Longrightarrow> emitsOnly Q (run sys cmd ign)"
  by (simp add: emitsOnly_def run_def split: prod.splits sum.splits)

lemma emitsOnly_confirm: "Q (Ask q) \<Longrightarrow> emitsOnly Q (confirm sys q)"
  by (simp add: emitsOnly_def confirm_def split: prod.splits option.splits)

lemma emitsOnly_logEach: "(\<And>s. Q (Log s)) \<Longrightarrow> emitsOnly Q (logEach ls)"
  by (induction ls) (auto intro: emitsOnly_consoleLog)

lemma emitsOnly_query:
  "allowsQueries Q \<Longrightarrow> \<not> isDeleteCmd cmd \<Longrightarrow> emitsOnly Q (run sys cmd ign)"
  by (rule emitsOnly_run) (simp add: allowsQueries_def)

lemma emitsOnly_log: "allowsQueries Q \<Longrightarrow> emitsOnly Q (consoleLog s)"
  by (rule emitsOnly_consoleLog) (simp add: allowsQueries_def)

lemma emitsOnly_logs: "allowsQueries Q \<Longrightarrow> emitsOnly Q (logEach ls)"
  by (rule emitsOnly_logEach) (simp add: allowsQueries_def)

lemma emitsOnly_isGitRepo: "allowsQueries Q \<Longrightarrow> emitsOnly Q (isGitRepo sys)"
  unfolding isGitRepo_def
  by (intro emitsOnly_tryCatch emitsOnly_bindP emitsOnly_returnP emitsOnly_query)
     (simp_all add: isDeleteCmd_def)

lemma emitsOnly_getDefaultBranch: "allowsQueries Q \<Longrightarrow> emitsOnly Q (getDefaultBranch sys)"
  unfolding getDefaultBranch_def Let_def
  by (intro emitsOnly_tryCatch emitsOnly_bindP emitsOnly_returnP emitsOnly_query)
     (auto simp: isDeleteCmd_def split: option.splits intro!: emitsOnly_query)

lemma emitsOnly_getMergedBranches: "allowsQueries Q \<Longrightarrow> emitsOnly Q (getMergedBranches sys)"
  unfolding getMergedBranches_def
  by (intro emitsOnly_bindP emitsOnly_returnP emitsOnly_query emitsOnly_getDefaultBranch)
     (simp_all add: isDeleteCmd_def)

lemma emitsOnly_staleLoop: "allowsQueries Q \<Longrightarrow> emitsOnly Q (staleLoop sys cutoff bs stale)"
proof (induction bs arbitrary: stale)
  case Nil
  then show ?case by auto
next
  case (Cons b bs)
  have "emitsOnly Q (run sys (''git log -1 --format=%ci '' @ b) False)"
    using Cons.prems by (rule emitsOnly_query) (simp add: isDeleteCmd_def)
  then show ?case
    using Cons by (auto split: option.splits)
qed

lemma emitsOnly_getStaleBranches: "allowsQueries Q \<Longrightarrow> emitsOnly Q (getStaleBranches sys days)"
  unfolding getStaleBranches_def Let_def
  by (intro emitsOnly_bindP emitsOnly_returnP emitsOnly_query emitsOnly_getDefaultBranch
        emitsOnly_now emitsOnly_staleLoop)
     (simp_all add: isDeleteCmd_def)

lemma emitsOnly_getGoneBranches: "allowsQueries Q \<Longrightarrow> emitsOnly Q (getGoneBranches sys)"
  unfolding getGoneBranches_def
  by (intro emitsOnly_bindP emitsOnly_returnP emitsOnly_query)
     (simp_all add: isDeleteCmd_def)

lemma emitsOnly_getLargeFiles: "allowsQueries Q \<Longrightarrow> emitsOnly Q (getLargeFiles sys count)"
  unfolding getLargeFiles_def
  by (intro emitsOnly_tryCatch emitsOnly_bindP emitsOnly_returnP emitsOnly_query)
     (auto simp: isDeleteCmd_def largeCmd_def)

lemma emitsOnly_if:
  "(b \<Longrightarrow> emitsOnly Q p) \<Longrightarrow> (\<not> b \<Longrightarrow> emitsOnly Q q) \<Longrightarrow> emitsOnly Q (if b then p else q)"
  by simp

lemma emitsOnly_deleteBranch:
  "(\<And>ok. Q (Exec (''git branch '' @ (if force then ''-D'' else ''-d'') @ '' '' @ b) ok))
   \<Longrightarrow> emitsOnly Q (deleteBranch sys b force)"
  unfolding deleteBranch_def Let_def
  by (intro emitsOnly_tryCatch emitsOnly_bindP emitsOnly_returnP emitsOnly_run)

lemma emitsOnly_deleteLoop:
  assumes "allowsQueries Q"
    and "\<And>b ok. Q (Exec (''git branch '' @ (if force then ''-D'' else ''-d'') @ '' '' @ b) ok)"
  shows "emitsOnly Q (deleteLoop sys force bs deleted)"
proof (induction bs arbitrary: deleted)
  case Nil
  show ?case by (simp add: emitsOnly_returnP)
next
  case (Cons b bs)
  have "emitsOnly Q (deleteBranch sys b force)"
    by (rule emitsOnly_deleteBranch) (rule assms(2))
  then show ?case
    unfolding deleteLoop.simps
    by (intro emitsOnly_bindP emitsOnly_if emitsOnly_log [OF assms(1)] Cons.IH)
qed

lemma emitsOnly_deleteBatch:
  assumes "allowsQueries Q"
    and "\<And>b ok. Q (Exec (''git branch '' @ (if force then ''-D'' else ''-d'') @ '' '' @ b) ok)"
  shows "emitsOnly Q (deleteBatch sys force bs)"
  unfolding deleteBatch_def
  by (intro emitsOnly_bindP emitsOnly_deleteLoop emitsOnly_log assms)

lemma emitsOnly_mergedSection:
  assumes "allowsQueries Q"
    and "dryRun \<or> force \<or> (\<forall>q. Q (Ask q))"
    and "dryRun \<or> (\<forall>b ok. Q (Exec (''git branch -d '' @ b) ok))"
  shows "emitsOnly Q (mergedSection sys dryRun force)"
  unfolding mergedSection_def
  by (intro emitsOnly_bindP emitsOnly_if emitsOnly_returnP emitsOnly_log emitsOnly_logs
        emitsOnly_getMergedBranches emitsOnly_deleteBatch emitsOnly_confirm assms(1))
     (use assms(2,3) in simp_all)

lemma emitsOnly_staleSection:
  assumes "allowsQueries Q"
    and "dryRun \<or> force \<or> (\<forall>q. Q (Ask q))"
    and "dryRun \<or> (\<forall>b ok. Q (Exec (''git branch -D '' @ b) ok))"
  shows "emitsOnly Q (staleSection sys dryRun force days)"
  unfolding staleSection_def
  by (intro emitsOnly_bindP emitsOnly_if emitsOnly_returnP emitsOnly_log emitsOnly_logs
        emitsOnly_getStaleBranches emitsOnly_deleteBatch emitsOnly_confirm assms(1))
     (use assms(2,3) in simp_all)

lemma emitsOnly_goneSection:
  assumes "allowsQueries Q"
    and "dryRun \<or> force \<or> (\<forall>q. Q (Ask q))"
    and "dryRun \<or> (\<forall>b ok. Q (Exec (''git branch -D '' @ b) ok))"
  shows "emitsOnly Q (goneSection sys dryRun force)"
  unfolding goneSection_def
  by (intro emitsOnly_bindP emitsOnly_if emitsOnly_returnP emitsOnly_log emitsOnly_logs
        emitsOnly_getGoneBranches emitsOnly_deleteBatch emitsOnly_confirm assms(1))
     (use assms(2,3) in simp_all)

lemma emitsOnly_largeSection:
  assumes "allowsQueries Q"
  shows "emitsOnly Q (largeSection sys topN)"
  unfolding largeSection_def
  by (intro emitsOnly_bindP emitsOnly_if emitsOnly_log emitsOnly_logs
        emitsOnly_getLargeFiles assms(1))

lemma emitsOnly_pruneSection:
  assumes "allowsQueries Q"
  shows "emitsOnly Q (pruneSection sys)"
  unfolding pruneSection_def
  by (intro emitsOnly_bindP emitsOnly_tryCatch emitsOnly_log emitsOnly_query assms(1))
     (simp add: isDeleteCmd_def)

lemma emitsOnly_mainBody:
  assumes "allowsQueries Q"
    and "''--dry-run'' \<in> set args \<or> ''--force'' \<in> set args \<or> (\<forall>q. Q (Ask q))"
    and "''--dry-run'' \<in> set args \<or> (firstArg args \<noteq> Some ''merged'' \<and> firstArg args \<noteq> Some ''all'')
         \<or> (\<forall>b ok. Q (Exec (''git branch -d '' @ b) ok))"
    and "''--dry-run'' \<in> set args
         \<or> (firstArg args \<noteq> Some ''stale'' \<and> firstArg args \<noteq> Some ''gone'' \<and> firstArg args \<noteq> Some ''all'')
         \<or> (\<forall>b ok. Q (Exec (''git branch -D '' @ b) ok))"
  shows "emitsOnly Q (mainBody sys args)"
  unfolding mainBody_def Let_def
  apply (intro emitsOnly_bindP emitsOnly_if emitsOnly_returnP
      emitsOnly_log emitsOnly_mergedSection emitsOnly_staleSection
      emitsOnly_goneSection emitsOnly_largeSection emitsOnly_pruneSection assms(1))
  using assms(2-4)
  by blast+

lemma emitsOnly_main:
  assumes "allowsQueries Q"
    and "''--dry-run'' \<in> set args \<or> ''--force'' \<in> set args \<or> (\<forall>q. Q (Ask q))"
    and "''--dry-run'' \<in> set args \<or> (firstArg args \<noteq> Some ''merged'' \<and> firstArg args \<noteq> Some ''all'')
         \<or> (\<forall>b ok. Q (Exec (''git branch -d '' @ b) ok))"
    and "''--dry-run'' \<in> set args
         \<or> (firstArg args \<noteq> Some ''stale'' \<and> firstArg args \<noteq> Some ''gone'' \<and> firstArg args \<noteq> Some ''all'')
         \<or> (\<forall>b ok. Q (Exec (''git branch -D '' @ b) ok))"
  shows "emitsOnly Q (main sys args)"
proof -
  have err: "\<And>s. emitsOnly Q (consoleError s)"
    using assms(1) by (intro emitsOnly_consoleError) (simp add: allowsQueries_def)
  show ?thesis
    unfolding main_def Let_def
    by (intro emitsOnly_bindP emitsOnly_if emitsOnly_returnP emitsOnly_processExit err
        emitsOnly_log emitsOnly_isGitRepo emitsOnly_mainBody assms)
qed

section \<open>How a computation can stop\<close>

lemma run_proj:
  "outcome (run sys cmd ign w) =
     (case fst (execSync sys cmd w) of
        Inr out \<Rightarrow> Inr (trim out)
      | Inl msg \<Rightarrow> if ign then Inr [] else Inl (Thrown msg))"
  "world (run sys cmd ign w) = snd (execSync sys cmd w)"
  "events (run sys cmd ign w) = [Exec cmd (case fst (execSync sys cmd w) of Inr out \<Rightarrow> True | Inl msg \<Rightarrow> False)]"
  by (simp_all add: run_def split: prod.splits sum.splits)

lemma haltsOnlyD: "haltsOnly H p \<Longrightarrow> outcome (p w) = Inl h \<Longrightarrow> H h"
  by (simp add: haltsOnly_def)

lemma haltsOnly_returnP: "haltsOnly H (returnP a)"
  by (simp add: haltsOnly_def)

lemma haltsOnly_consoleLog: "haltsOnly H (consoleLog s)"
  by (simp add: haltsOnly_def)

lemma haltsOnly_consoleError: "haltsOnly H (consoleError s)"
  by (simp add: haltsOnly_def)

lemma haltsOnly_now: "haltsOnly H (now sys)"
  by (simp add: haltsOnly_def)

lemma haltsOnly_processExit: "H (Exited n) \<Longrightarrow> haltsOnly H (processExit n)"
  by (simp add: haltsOnly_def)

lemma haltsOnly_if:
  "(b \<Longrightarrow> haltsOnly H p) \<Longrightarrow> (\<not> b \<Longrightarrow> haltsOnly H q) \<Longrightarrow> haltsOnly H (if b then p else q)"
  by simp

lemma haltsOnly_bindP:
  "haltsOnly H m \<Longrightarrow> (\<And>a. haltsOnly H (f a)) \<Longrightarrow> haltsOnly H (bindP m f)"
  by (auto simp: haltsOnly_def outcome_bindP split: sum.splits)

lemma haltsOnly_tryCatch:
  "haltsOnly (\<lambda>h. (\<exists>msg. h = Thrown msg) \<or> H h) m \<Longrightarrow> (\<And>msg. haltsOnly H (k msg))
   \<Longrightarrow> haltsOnly H (tryCatch m k)"
  by (fastforce simp: haltsOnly_def outcome_tryCatch split: sum.splits halt.splits)

lemma haltsOnly_run_ignore: "haltsOnly H (run sys cmd True)"
  by (simp add: haltsOnly_def run_proj split: sum.splits)

lemma haltsOnly_run:
  "(\<forall>msg. H (Thrown msg)) \<or> alwaysSucceeds sys cmd \<Longrightarrow> haltsOnly H (run sys cmd ign)"
  unfolding haltsOnly_def alwaysSucceeds_def
  by (auto simp: run_proj split: sum.splits if_splits) (metis sum.distinct(1))

lemma haltsOnly_caught: "haltsOnly (\<lambda>h. (\<exists>msg. h = Thrown msg) \<or> H h) (run sys cmd ign)"
  by (rule haltsOnly_run) simp

lemma haltsOnly_confirm: "H NoInput \<Longrightarrow> haltsOnly H (confirm sys q)"
  by (simp add: haltsOnly_def confirm_def split: prod.splits option.splits)

lemma haltsOnly_logEach: "haltsOnly H (logEach ls)"
  by (induction ls) (auto intro: haltsOnly_returnP haltsOnly_bindP haltsOnly_consoleLog)

lemma haltsOnly_isGitRepo: "haltsOnly H (isGitRepo sys)"
  unfolding isGitRepo_def
  by (intro haltsOnly_tryCatch haltsOnly_bindP haltsOnly_returnP haltsOnly_caught)

lemma haltsOnly_getDefaultBranch:
  assumes "(\<forall>msg. H (Thrown msg)) \<or> alwaysSucceeds sys ''git branch -a''"
  shows "haltsOnly H (getDefaultBranch sys)"
proof -
  have "haltsOnly H
          (case early of Some found \<Rightarrow> returnP found
           | None \<Rightarrow> bindP (run sys ''git branch -a'' False) (\<lambda>branches.
               returnP (if includesStr branches ''main'' then ''main''
                        else if includesStr branches ''master'' then ''master'' else ''main'')))"
    for early
    by (cases early) (auto intro!: haltsOnly_returnP haltsOnly_bindP haltsOnly_run assms)
  then show ?thesis
    unfolding getDefaultBranch_def Let_def
    by (intro haltsOnly_bindP haltsOnly_tryCatch haltsOnly_returnP haltsOnly_caught)
qed

lemma haltsOnly_getMergedBranches:
  assumes "(\<forall>msg. H (Thrown msg)) \<or> listingsSucceed sys"
  shows "haltsOnly H (getMergedBranches sys)"
  unfolding getMergedBranches_def
  by (intro haltsOnly_bindP haltsOnly_returnP haltsOnly_run_ignore haltsOnly_getDefaultBranch
        haltsOnly_run)
     (use assms in \<open>auto simp: listingsSucceed_def\<close>)

lemma haltsOnly_staleLoop: "haltsOnly H (staleLoop sys cutoff bs stale)"
proof (induction bs arbitrary: stale)
  case Nil
  show ?case by (simp add: haltsOnly_returnP)
next
  case (Cons b bs)
  have body: "haltsOnly (\<lambda>h. (\<exists>msg. h = Thrown msg) \<or> H h)
          (case (dateParse sys dateStr, cutoff) of
             (Some lastCommit, Some co) \<Rightarrow>
               (if lastCommit < co
                then bindP (now sys) (\<lambda>t.
                       returnP (stale @ [\<lparr>branch = b, daysAgo = (t - lastCommit) div (24 * 60 * 60 * 1000)\<rparr>]))
                else returnP stale)
           | _ \<Rightarrow> returnP stale)" for dateStr
    by (auto split: option.splits intro!: haltsOnly_returnP haltsOnly_bindP haltsOnly_now)
  show ?case
    unfolding staleLoop.simps
    by (intro haltsOnly_bindP haltsOnly_tryCatch haltsOnly_returnP haltsOnly_caught body Cons.IH)
qed

lemma haltsOnly_getStaleBranches:
  assumes "(\<forall>msg. H (Thrown msg)) \<or> listingsSucceed sys"
  shows "haltsOnly H (getStaleBranches sys days)"
  unfolding getStaleBranches_def Let_def
  by (intro haltsOnly_bindP haltsOnly_returnP haltsOnly_now haltsOnly_getDefaultBranch
        haltsOnly_staleLoop haltsOnly_run)
     (use assms in \<open>auto simp: listingsSucceed_def\<close>)

lemma haltsOnly_getGoneBranches:
  assumes "(\<forall>msg. H (Thrown msg)) \<or> listingsSucceed sys"
  shows "haltsOnly H (getGoneBranches sys)"
  unfolding getGoneBranches_def
  by (intro haltsOnly_bindP haltsOnly_returnP haltsOnly_run_ignore haltsOnly_run)
     (use assms in \<open>auto simp: listingsSucceed_def\<close>)

lemma haltsOnly_getLargeFiles: "haltsOnly H (getLargeFiles sys count)"
  unfolding getLargeFiles_def
  by (intro haltsOnly_tryCatch haltsOnly_bindP haltsOnly_if haltsOnly_returnP haltsOnly_caught)

lemma haltsOnly_deleteBranch: "haltsOnly H (deleteBranch sys b force)"
  unfolding deleteBranch_def Let_def
  by (intro haltsOnly_tryCatch haltsOnly_bindP haltsOnly_returnP haltsOnly_caught)

lemma haltsOnly_deleteLoop: "haltsOnly H (deleteLoop sys force bs deleted)"
proof (induction bs arbitrary: deleted)
  case Nil
  show ?case by (simp add: haltsOnly_returnP)
next
  case (Cons b bs)
  show ?case
    unfolding deleteLoop.simps
    by (intro haltsOnly_bindP haltsOnly_if haltsOnly_consoleLog haltsOnly_deleteBranch Cons.IH)
qed

lemma haltsOnly_deleteBatch: "haltsOnly H (deleteBatch sys force bs)"
  unfolding deleteBatch_def
  by (intro haltsOnly_bindP haltsOnly_deleteLoop haltsOnly_consoleLog)

lemma haltsOnly_mergedSection:
  assumes "(\<forall>msg. H (Thrown msg)) \<or> listingsSucceed sys"
    and "dryRun \<or> force \<or> H NoInput"
  shows "haltsOnly H (mergedSection sys dryRun force)"
  unfolding mergedSection_def
  by (intro haltsOnly_bindP haltsOnly_if haltsOnly_returnP haltsOnly_consoleLog haltsOnly_logEach
        haltsOnly_getMergedBranches haltsOnly_deleteBatch haltsOnly_confirm assms(1))
     (use assms(2) in simp_all)

lemma haltsOnly_staleSection:
  assumes "(\<forall>msg. H (Thrown msg)) \<or> listingsSucceed sys"
    and "dryRun \<or> force \<or> H NoInput"
  shows "haltsOnly H (staleSection sys dryRun force days)"
  unfolding staleSection_def
  by (intro haltsOnly_bindP haltsOnly_if haltsOnly_returnP haltsOnly_consoleLog haltsOnly_logEach
        haltsOnly_getStaleBranches haltsOnly_deleteBatch haltsOnly_confirm assms(1))
     (use assms(2) in simp_all)

lemma haltsOnly_goneSection:
  assumes "(\<forall>msg. H (Thrown msg)) \<or> listingsSucceed sys"
    and "dryRun \<or> force \<or> H NoInput"
  shows "haltsOnly H (goneSection sys dryRun force)"
  unfolding goneSection_def
  by (intro haltsOnly_bindP haltsOnly_if haltsOnly_returnP haltsOnly_consoleLog haltsOnly_logEach
        haltsOnly_getGoneBranches haltsOnly_deleteBatch haltsOnly_confirm assms(1))
     (use assms(2) in simp_all)

lemma haltsOnly_largeSection: "haltsOnly H (largeSection sys topN)"
  unfolding largeSection_def
  by (intro haltsOnly_bindP haltsOnly_if haltsOnly_consoleLog haltsOnly_logEach
        haltsOnly_getLargeFiles)

lemma haltsOnly_pruneSection: "haltsOnly H (pruneSection sys)"
  unfolding pruneSection_def
  by (intro haltsOnly_bindP haltsOnly_tryCatch haltsOnly_consoleLog haltsOnly_caught)

lemma haltsOnly_mainBody:
  assumes "(\<forall>msg. H (Thrown msg)) \<or> listingsSucceed sys"
    and "''--dry-run'' \<in> set args \<or> ''--force'' \<in> set args \<or> H NoInput"
  shows "haltsOnly H (mainBody sys args)"
  unfolding mainBody_def Let_def
  by (intro haltsOnly_bindP haltsOnly_if haltsOnly_returnP haltsOnly_consoleLog
        haltsOnly_mergedSection haltsOnly_staleSection haltsOnly_goneSection
        haltsOnly_largeSection haltsOnly_pruneSection assms)

lemma isGitRepo_proj:
  "outcome (isGitRepo sys w) =
     Inr (case fst (execSync sys ''git rev-parse --git-dir'' w) of Inr out \<Rightarrow> True | Inl msg \<Rightarrow> False)"
  "world (isGitRepo sys w) = snd (execSync sys ''git rev-parse --git-dir'' w)"
  "events (isGitRepo sys w) =
     [Exec ''git rev-parse --git-dir''
        (case fst (execSync sys ''git rev-parse --git-dir'' w) of Inr out \<Rightarrow> True | Inl msg \<Rightarrow> False)]"
  by (simp_all add: isGitRepo_def outcome_tryCatch world_tryCatch events_tryCatch
        outcome_bindP world_bindP events_bindP run_proj split: sum.splits)

lemma main_help: "isHelp args \<Longrightarrow> main sys args w = (Inr (), w, [Log helpText])"
  by (simp add: main_def isHelp_def consoleLog_def)

lemma outcome_main:
  "\<not> isHelp args \<Longrightarrow>
   outcome (main sys args w) =
     (case fst (execSync sys ''git rev-parse --git-dir'' w) of
        Inl msg \<Rightarrow> Inl (Exited 1)
      | Inr out \<Rightarrow> outcome (mainBody sys args (snd (execSync sys ''git rev-parse --git-dir'' w))))"
  by (auto simp: main_def isHelp_def Let_def outcome_bindP world_bindP isGitRepo_proj split: sum.splits)

lemma events_main:
  "\<not> isHelp args \<Longrightarrow>
   events (main sys args w) =
     (case fst (execSync sys ''git rev-parse --git-dir'' w) of
        Inl msg \<Rightarrow> [Exec ''git rev-parse --git-dir'' False, LogError (c red ''Error: Not a git repository'')]
      | Inr out \<Rightarrow> Exec ''git rev-parse --git-dir'' True
                    # events (mainBody sys args (snd (execSync sys ''git rev-parse --git-dir'' w))))"
  by (auto simp: main_def isHelp_def Let_def outcome_bindP world_bindP events_bindP isGitRepo_proj
        split: sum.splits)

lemma mainBody_never_exits: "outcome (mainBody sys args w) \<noteq> Inl (Exited n)"
proof
  assume "outcome (mainBody sys args w) = Inl (Exited n)"
  moreover have "haltsOnly (\<lambda>h. \<forall>n. h \<noteq> Exited n) (mainBody sys args)"
    by (rule haltsOnly_mainBody) simp_all
  ultimately show False
    by (auto dest: haltsOnlyD)
qed

lemma haltsOnly_main:
  assumes "(\<forall>msg. H (Thrown msg)) \<or> listingsSucceed sys"
    and "''--dry-run'' \<in> set args \<or> ''--force'' \<in> set args \<or> H NoInput"
    and "H (Exited 1)"
  shows "haltsOnly H (main sys args)"
  unfolding main_def Let_def
  by (intro haltsOnly_bindP haltsOnly_if haltsOnly_returnP haltsOnly_consoleLog
        haltsOnly_consoleError haltsOnly_processExit haltsOnly_isGitRepo haltsOnly_mainBody assms)

section \<open>The deletion loop and the three sections, event by event\<close>

lemma no_deletes: "emitsOnly (\<lambda>e. \<not> isDeleteCall e) p \<Longrightarrow> filter isDeleteCall (events (p w)) = []"
  by (simp add: emitsOnly_def list_all_iff filter_empty_conv)

lemma allowsQueries_no_deletes: "allowsQueries (\<lambda>e. \<not> isDeleteCall e)"
  by (simp add: allowsQueries_def)

lemma logEach_proj:
  "outcome (logEach ls w) = Inr ()" "world (logEach ls w) = w" "events (logEach ls w) = map Log ls"
  by (induction ls) (simp_all add: outcome_bindP world_bindP events_bindP)

lemma confirm_proj:
  "outcome (confirm sys q w) =
     (case fst (question sys q w) of
        Some answer \<Rightarrow> Inr (startsWith (toLowerCase answer) ''y'')
      | None \<Rightarrow> Inl NoInput)"
  "world (confirm sys q w) = snd (question sys q w)"
  "events (confirm sys q w) = [Ask q]"
  by (simp_all add: confirm_def split: prod.splits option.splits)

lemma isDeleteCmd_deleteCmd: "isDeleteCmd (deleteCmd force b)"
  by (simp add: isDeleteCmd_def deleteCmd_def)

lemma deleteBranch_proj:
  "outcome (deleteBranch sys b force w) =
     Inr (case fst (execSync sys (deleteCmd force b) w) of Inr out \<Rightarrow> True | Inl msg \<Rightarrow> False)"
  "world (deleteBranch sys b force w) = snd (execSync sys (deleteCmd force b) w)"
  "events (deleteBranch sys b force w) =
     [Exec (deleteCmd force b)
        (case fst (execSync sys (deleteCmd force b) w) of Inr out \<Rightarrow> True | Inl msg \<Rightarrow> False)]"
  unfolding deleteBranch_def Let_def deleteCmd_def
  by (simp_all add: outcome_tryCatch world_tryCatch events_tryCatch
        outcome_bindP world_bindP events_bindP run_proj split: sum.splits)

lemma deleteLoop_step:
  "outcome (deleteLoop sys force (b # bs) deleted w) =
     outcome (deleteLoop sys force bs
        (case fst (execSync sys (deleteCmd force b) w) of Inr out \<Rightarrow> deleted + 1 | Inl msg \<Rightarrow> deleted)
        (snd (execSync sys (deleteCmd force b) w)))"
  "world (deleteLoop sys force (b # bs) deleted w) =
     world (deleteLoop sys force bs
        (case fst (execSync sys (deleteCmd force b) w) of Inr out \<Rightarrow> deleted + 1 | Inl msg \<Rightarrow> deleted)
        (snd (execSync sys (deleteCmd force b) w)))"
  "events (deleteLoop sys force (b # bs) deleted w) =
     Exec (deleteCmd force b)
        (case fst (execSync sys (deleteCmd force b) w) of Inr out \<Rightarrow> True | Inl msg \<Rightarrow> False)
     # (case fst (execSync sys (deleteCmd force b) w) of
          Inr out \<Rightarrow> Log (''   '' @ c green symCheck @ '' Deleted '' @ b)
        | Inl msg \<Rightarrow> Log (''   '' @ c red symCross @ '' Failed to delete '' @ b))
     # events (deleteLoop sys force bs
        (case fst (execSync sys (deleteCmd force b) w) of Inr out \<Rightarrow> deleted + 1 | Inl msg \<Rightarrow> deleted)
        (snd (execSync sys (deleteCmd force b) w)))"
  by (simp_all add: outcome_bindP world_bindP events_bindP deleteBranch_proj split: sum.splits)

lemma deleteLoop_nil:
  "outcome (deleteLoop sys force [] deleted w) = Inr deleted"
  "world (deleteLoop sys force [] deleted w) = w"
  "events (deleteLoop sys force [] deleted w) = []"
  by simp_all

lemma deleteLoop_count:
  "outcome (deleteLoop sys force bs deleted w)
     = Inr (deleted + length (filter isDeleteSuccess (events (deleteLoop sys force bs deleted w))))"
proof (induction bs arbitrary: deleted w)
  case Nil
  show ?case by (simp only: deleteLoop_nil) simp
next
  case (Cons b bs)
  show ?case
    by (simp only: deleteLoop_step Cons.IH)
       (simp add: isDeleteCmd_deleteCmd split: sum.splits)
qed

lemma deleteLoop_calls:
  "map (\<lambda>e. case e of Exec cmd ok \<Rightarrow> cmd | _ \<Rightarrow> [])
     (filter isDeleteCall (events (deleteLoop sys force bs deleted w))) = map (deleteCmd force) bs"
proof (induction bs arbitrary: deleted w)
  case Nil
  show ?case by (simp only: deleteLoop_nil) simp
next
  case (Cons b bs)
  show ?case
    by (simp only: deleteLoop_step)
       (simp add: isDeleteCmd_deleteCmd Cons.IH split: sum.splits)
qed

lemma deleteLoop_commands:
  "commands (events (deleteLoop sys force bs deleted w)) = map (deleteCmd force) bs"
proof (induction bs arbitrary: deleted w)
  case Nil
  show ?case by (simp only: deleteLoop_nil) simp
next
  case (Cons b bs)
  show ?case
    by (simp only: deleteLoop_step)
       (simp add: Cons.IH split: sum.splits)
qed

lemma success_le_calls: "length (filter isDeleteSuccess es) \<le> length (filter isDeleteCall es)"
proof (induction es)
  case Nil
  show ?case by simp
next
  case (Cons e es)
  then show ?case by (cases e) auto
qed

lemma deleteBatch_proj:
  "outcome (deleteBatch sys force bs w) = Inr ()"
  "world (deleteBatch sys force bs w) = world (deleteLoop sys force bs 0 w)"
  "events (deleteBatch sys force bs w) =
     events (deleteLoop sys force bs 0 w)
     @ [Log (deletedLine (length (filter isDeleteSuccess (events (deleteLoop sys force bs 0 w)))) (length bs))]"
  unfolding deleteBatch_def
  by (simp_all add: outcome_bindP world_bindP events_bindP deleteLoop_count)

lemma commands_append: "commands (es @ fs) = commands es @ commands fs"
  by (induction es rule: commands.induct) simp_all

lemma commands_map_Log: "commands (map Log ls) = []"
  by (induction ls) simp_all

lemma commands_map_Log_comp: "commands (map (Log \<circ> f) xs) = []"
  by (induction xs) simp_all

lemma deleteCmds_simps:
  "deleteCmds [] = []"
  "deleteCmds (es @ fs) = deleteCmds es @ deleteCmds fs"
  "deleteCmds (Log s # es) = deleteCmds es"
  "deleteCmds (LogError s # es) = deleteCmds es"
  "deleteCmds (Ask q # es) = deleteCmds es"
  "deleteCmds (Exec cmd ok # es) = (if isDeleteCmd cmd then cmd # deleteCmds es else deleteCmds es)"
  "deleteCmds (map Log ls) = []"
  "deleteCmds (map (Log \<circ> f) xs) = []"
  by (simp_all add: deleteCmds_def commands_append commands_map_Log commands_map_Log_comp)

lemma deleteCmds_none:
  "emitsOnly (\<lambda>e. \<not> isDeleteCall e) p \<Longrightarrow> deleteCmds (events (p w)) = []"
proof -
  have "list_all (\<lambda>e. \<not> isDeleteCall e) es \<Longrightarrow> deleteCmds es = []" for es
    by (induction es rule: commands.induct) (simp_all add: deleteCmds_def)
  then show "emitsOnly (\<lambda>e. \<not> isDeleteCall e) p \<Longrightarrow> deleteCmds (events (p w)) = []"
    by (simp add: emitsOnly_def)
qed

lemma deleteCmds_deleteBatch:
  "deleteCmds (events (deleteBatch sys force bs w)) = map (deleteCmd force) bs"
proof -
  have "filter isDeleteCmd (map (deleteCmd force) bs) = map (deleteCmd force) bs"
    by (induction bs) (simp_all add: isDeleteCmd_deleteCmd)
  then show ?thesis
    by (simp add: deleteBatch_proj deleteCmds_simps) (simp add: deleteCmds_def deleteLoop_commands)
qed

lemma deleteCmd_unfold:
  "deleteCmd False b = ''git branch -d '' @ b" "deleteCmd True b = ''git branch -D '' @ b"
  by (simp_all add: deleteCmd_def)

lemma mergedSection_deleteCmds:
  assumes "getMergedBranches sys w = (Inr merged, w1, e1)"
  shows "deleteCmds (events (mergedSection sys dryRun force w)) =
     (if dryRun then []
      else if force then map (deleteCmd False) merged
      else case fst (question sys (''   Delete '' @ showNat (length merged) @ '' merged branch(es)? [y/N] '') w1) of
             None \<Rightarrow> []
           | Some answer \<Rightarrow>
               if startsWith (toLowerCase answer) ''y'' then map (deleteCmd False) merged else [])"
proof -
  have "deleteCmds (events (getMergedBranches sys w)) = []"
    by (intro deleteCmds_none emitsOnly_getMergedBranches allowsQueries_no_deletes)
  then have "deleteCmds e1 = []"
    using assms by simp
  then show ?thesis
    unfolding mergedSection_def
    using assms
    by (simp add: outcome_bindP world_bindP events_bindP logEach_proj confirm_proj
          deleteCmds_simps deleteCmds_deleteBatch split: option.splits)
qed

lemma staleSection_deleteCmds:
  assumes "getStaleBranches sys days w = (Inr stale, w1, e1)"
  shows "deleteCmds (events (staleSection sys dryRun force days w)) =
     (if dryRun then []
      else if force then map (deleteCmd True) (map branch stale)
      else case fst (question sys (''   Delete '' @ showNat (length stale) @ '' stale branch(es)? [y/N] '') w1) of
             None \<Rightarrow> []
           | Some answer \<Rightarrow>
               if startsWith (toLowerCase answer) ''y'' then map (deleteCmd True) (map branch stale) else [])"
proof -
  have "deleteCmds (events (getStaleBranches sys days w)) = []"
    by (intro deleteCmds_none emitsOnly_getStaleBranches allowsQueries_no_deletes)
  then have "deleteCmds e1 = []"
    using assms by simp
  then show ?thesis
    unfolding staleSection_def
    using assms
    by (simp add: outcome_bindP world_bindP events_bindP logEach_proj confirm_proj
          deleteCmds_simps deleteCmds_deleteBatch split: option.splits)
qed

lemma goneSection_deleteCmds:
  assumes "getGoneBranches sys w = (Inr gone, w1, e1)"
  shows "deleteCmds (events (goneSection sys dryRun force w)) =
     (if dryRun then []
      else if force then map (deleteCmd True) gone
      else case fst (question sys (''   Delete '' @ showNat (length gone) @ '' gone branch(es)? [y/N] '') w1) of
             None \<Rightarrow> []
           | Some answer \<Rightarrow>
               if startsWith (toLowerCase answer) ''y'' then map (deleteCmd True) gone else [])"
proof -
  have "deleteCmds (events (getGoneBranches sys w)) = []"
    by (intro deleteCmds_none emitsOnly_getGoneBranches allowsQueries_no_deletes)
  then have "deleteCmds e1 = []"
    using assms by simp
  then show ?thesis
    unfolding goneSection_def
    using assms
    by (simp add: outcome_bindP world_bindP events_bindP logEach_proj confirm_proj
          deleteCmds_simps deleteCmds_deleteBatch split: option.splits)
qed

lemma not_isHelp:
  "firstArg args = Some ''merged'' \<Longrightarrow> \<not> isHelp args"
  "firstArg args = Some ''stale'' \<Longrightarrow> \<not> isHelp args"
  "firstArg args = Some ''gone'' \<Longrightarrow> \<not> isHelp args"
  "firstArg args = Some ''all'' \<Longrightarrow> \<not> isHelp args"
  by (simp_all add: isHelp_def)

lemma deleteCmds_main:
  "\<not> isHelp args \<Longrightarrow> execSync sys ''git rev-parse --git-dir'' w = (Inr out, w1) \<Longrightarrow>
   deleteCmds (events (main sys args w)) = deleteCmds (events (mainBody sys args w1))"
  by (simp add: events_main deleteCmds_simps isDeleteCmd_def)

lemma deleteCmds_pruneSection: "deleteCmds (events (pruneSection sys w)) = []"
  by (intro deleteCmds_none emitsOnly_pruneSection allowsQueries_no_deletes)

lemma deleteCmds_largeSection: "deleteCmds (events (largeSection sys topN w)) = []"
  by (intro deleteCmds_none emitsOnly_largeSection allowsQueries_no_deletes)

lemma mainBody_merged:
  "firstArg args = Some ''merged'' \<Longrightarrow>
   deleteCmds (events (mainBody sys args w)) =
   deleteCmds (events (mergedSection sys (''--dry-run'' \<in> set args) (''--force'' \<in> set args) w))"
  unfolding mainBody_def Let_def
  by (simp add: outcome_bindP world_bindP events_bindP deleteCmds_simps split: sum.splits)

lemma mainBody_stale:
  "firstArg args = Some ''stale'' \<Longrightarrow>
   deleteCmds (events (mainBody sys args w)) =
   deleteCmds (events (staleSection sys (''--dry-run'' \<in> set args) (''--force'' \<in> set args)
      (if ''--days'' \<in> set args then parseIntArg (argAfter ''--days'' args) else Some 30) w))"
  unfolding mainBody_def Let_def
  by (simp add: outcome_bindP world_bindP events_bindP deleteCmds_simps split: sum.splits)

lemma mainBody_gone:
  "firstArg args = Some ''gone'' \<Longrightarrow>
   deleteCmds (events (mainBody sys args w)) =
   deleteCmds (events (goneSection sys (''--dry-run'' \<in> set args) (''--force'' \<in> set args) w))"
  unfolding mainBody_def Let_def
  by (simp add: outcome_bindP world_bindP events_bindP deleteCmds_simps split: sum.splits)

lemma mergedSection_forced_outcome:
  "getMergedBranches sys w = (Inr merged, w1, e1) \<Longrightarrow> outcome (mergedSection sys False True w) = Inr ()"
  unfolding mergedSection_def
  by (simp add: outcome_bindP world_bindP logEach_proj deleteBatch_proj)

lemma staleSection_forced_outcome:
  "getStaleBranches sys days w = (Inr stale, w1, e1) \<Longrightarrow>
   outcome (staleSection sys False True days w) = Inr ()"
  unfolding staleSection_def
  by (simp add: outcome_bindP world_bindP logEach_proj deleteBatch_proj)

lemma goneSection_forced_outcome:
  "getGoneBranches sys w = (Inr gone, w1, e1) \<Longrightarrow> outcome (goneSection sys False True w) = Inr ()"
  unfolding goneSection_def
  by (simp add: outcome_bindP world_bindP logEach_proj deleteBatch_proj)

lemma mainBody_all:
  assumes "firstArg args = Some ''all''" and "''--force'' \<in> set args" and "''--dry-run'' \<notin> set args"
    and "days = (if ''--days'' \<in> set args then parseIntArg (argAfter ''--days'' args) else Some 30)"
    and "getMergedBranches sys w = (Inr merged, w2, e2)"
    and "getStaleBranches sys days (world (mergedSection sys False True w)) = (Inr stale, w3, e3)"
    and "getGoneBranches sys (world (staleSection sys False True days (world (mergedSection sys False True w))))
           = (Inr gone, w4, e4)"
  shows "deleteCmds (events (mainBody sys args w)) =
           map (deleteCmd False) merged @ map (deleteCmd True) (map branch stale) @ map (deleteCmd True) gone"
  unfolding mainBody_def Let_def
  using assms(1-3) assms(4) [symmetric]
    mergedSection_forced_outcome [OF assms(5)] mergedSection_deleteCmds [OF assms(5), of False True]
    staleSection_forced_outcome [OF assms(6)] staleSection_deleteCmds [OF assms(6), of False True]
    goneSection_forced_outcome [OF assms(7)] goneSection_deleteCmds [OF assms(7), of False True]
  by (simp add: outcome_bindP world_bindP events_bindP deleteCmds_simps deleteCmds_largeSection
        split: sum.splits)

lemma deleteCmds_all:
  "list_all (\<lambda>e. \<forall>cmd ok. e = Exec cmd ok \<longrightarrow> isDeleteCmd cmd \<longrightarrow> P cmd) es
   \<Longrightarrow> \<forall>cmd \<in> set (deleteCmds es). P cmd"
  by (induction es rule: commands.induct) (simp_all add: deleteCmds_def)

lemma deleteCmd_fun:
  "deleteCmd False = (\<lambda>b. ''git branch -d '' @ b)" "deleteCmd True = (\<lambda>b. ''git branch -D '' @ b)"
  by (rule ext, simp add: deleteCmd_def)+

lemma main_delete_mode:
  assumes "firstArg args \<noteq> Some ''all''"
    and "firstArg args = Some ''merged'' \<longrightarrow> (\<forall>b. P (''git branch -d '' @ b))"
    and "firstArg args = Some ''stale'' \<or> firstArg args = Some ''gone'' \<longrightarrow> (\<forall>b. P (''git branch -D '' @ b))"
  shows "\<forall>cmd \<in> set (deleteCmds (events (main sys args w))). P cmd"
proof -
  have "emitsOnly (\<lambda>e. \<forall>cmd ok. e = Exec cmd ok \<longrightarrow> isDeleteCmd cmd \<longrightarrow> P cmd) (main sys args)"
    by (rule emitsOnly_main) (use assms in \<open>auto simp: allowsQueries_def\<close>)
  then show ?thesis
    by (intro deleteCmds_all) (simp add: emitsOnly_def)
qed

lemma deletedLine_2_2:
  "deletedLine (Suc (Suc 0)) (Suc (Suc 0)) = c green (nl @ ''   Deleted 2/2 branches'' @ nl)"
  by code_simp

lemma deleteBatch_calls:
  "length (filter isDeleteCall (events (deleteBatch sys force bs w))) = length bs"
proof -
  have "length (map (\<lambda>e. case e of Exec cmd ok \<Rightarrow> cmd | _ \<Rightarrow> [])
          (filter isDeleteCall (events (deleteLoop sys force bs 0 w)))) = length (map (deleteCmd force) bs)"
    by (simp only: deleteLoop_calls)
  then show ?thesis
    by (simp add: deleteBatch_proj)
qed

lemma scenario_events:
  assumes "execSync sys ''git rev-parse --git-dir'' w = (Inr out, w1)"
    and "getMergedBranches sys w1 = (Inr [''feature/a'', ''feature/b''], w2, e2)"
    and "execSync sys ''git branch -d feature/a'' w2 = (Inr o1, w3)"
    and "execSync sys ''git branch -d feature/b'' w3 = (Inr o2, w4)"
  shows "events (deleteBatch sys False [''feature/a'', ''feature/b''] w2) =
           [Exec ''git branch -d feature/a'' True,
            Log (''   '' @ c green symCheck @ '' Deleted feature/a''),
            Exec ''git branch -d feature/b'' True,
            Log (''   '' @ c green symCheck @ '' Deleted feature/b''),
            Log (c green (nl @ ''   Deleted 2/2 branches'' @ nl))]"
  using assms(3,4)
  by (simp add: deleteBatch_proj deleteLoop_step deleteCmd_def isDeleteCmd_def
        deletedLine_2_2 del: deleteLoop.simps(2))

lemma scenario_main:
  assumes "execSync sys ''git rev-parse --git-dir'' w = (Inr out, w1)"
    and "getMergedBranches sys w1 = (Inr [''feature/a'', ''feature/b''], w2, e2)"
  shows "events (main sys [''merged'', ''--force''] w) =
           Exec ''git rev-parse --git-dir'' True
           # Log (c cyan (nl @ symBroom @ '' git-cleanup'' @ nl))
           # Log (c bold (symClipboard @ '' Merged Branches''))
           # e2
           @ [Log (c dim (''   Found '' @ showNat 2 @ '' merged branch(es):'' @ nl)),
              Log (''   '' @ c yellow symBullet @ '' feature/a''),
              Log (''   '' @ c yellow symBullet @ '' feature/b''),
              Log []]
           @ events (deleteBatch sys False [''feature/a'', ''feature/b''] w2)
           @ [Log (c dim (''Done!'' @ nl))]"
proof -
  have nh: "\<not> isHelp [''merged'', ''--force'']"
    by (simp add: isHelp_def firstArg_def)
  have two: "Suc (Suc 0) = 2" by simp
  show ?thesis
    using assms
    by (simp add: events_main [OF nh] mainBody_def firstArg_def mergedSection_def
          outcome_bindP world_bindP events_bindP logEach_proj deleteBatch_proj two
          del: One_nat_def)
qed

lemma mergedSection_exact:
  assumes "getMergedBranches sys w = (Inr merged, w1, e1)"
  shows "deleteCmds (events (mergedSection sys dryRun force w)) =
     (if deletionProceeds sys dryRun force
           (''   Delete '' @ showNat (length merged) @ '' merged branch(es)? [y/N] '') w1
      then map (\<lambda>b. ''git branch -d '' @ b) merged else [])"
  by (simp add: mergedSection_deleteCmds [OF assms] deletionProceeds_def deleteCmd_fun
        split: option.splits)

lemma staleSection_exact:
  assumes "getStaleBranches sys days w = (Inr stale, w1, e1)"
  shows "deleteCmds (events (staleSection sys dryRun force days w)) =
     (if deletionProceeds sys dryRun force
           (''   Delete '' @ showNat (length stale) @ '' stale branch(es)? [y/N] '') w1
      then map (\<lambda>x. ''git branch -D '' @ branch x) stale else [])"
  by (simp add: staleSection_deleteCmds [OF assms] deletionProceeds_def deleteCmd_fun comp_def
        split: option.splits)

lemma goneSection_exact:
  assumes "getGoneBranches sys w = (Inr gone, w1, e1)"
  shows "deleteCmds (events (goneSection sys dryRun force w)) =
     (if deletionProceeds sys dryRun force
           (''   Delete '' @ showNat (length gone) @ '' gone branch(es)? [y/N] '') w1
      then map (\<lambda>b. ''git branch -D '' @ b) gone else [])"
  by (simp add: goneSection_deleteCmds [OF assms] deletionProceeds_def deleteCmd_fun
        split: option.splits)

lemma mainBody_all_sections:
  assumes "firstArg args = Some ''all''"
    and "outcome (mergedSection sys (''--dry-run'' \<in> set args) (''--force'' \<in> set args) w) = Inr ()"
    and "outcome (staleSection sys (''--dry-run'' \<in> set args) (''--force'' \<in> set args)
           (if ''--days'' \<in> set args then parseIntArg (argAfter ''--days'' args) else Some 30)
           (world (mergedSection sys (''--dry-run'' \<in> set args) (''--force'' \<in> set args) w))) = Inr ()"
  shows "deleteCmds (events (mainBody sys args w)) =
     deleteCmds (events (mergedSection sys (''--dry-run'' \<in> set args) (''--force'' \<in> set args) w))
     @ deleteCmds (events (staleSection sys (''--dry-run'' \<in> set args) (''--force'' \<in> set args)
           (if ''--days'' \<in> set args then parseIntArg (argAfter ''--days'' args) else Some 30)
           (world (mergedSection sys (''--dry-run'' \<in> set args) (''--force'' \<in> set args) w))))
     @ deleteCmds (events (goneSection sys (''--dry-run'' \<in> set args) (''--force'' \<in> set args)
           (world (staleSection sys (''--dry-run'' \<in> set args) (''--force'' \<in> set args)
              (if ''--days'' \<in> set args then parseIntArg (argAfter ''--days'' args) else Some 30)
              (world (mergedSection sys (''--dry-run'' \<in> set args) (''--force'' \<in> set args) w))))))"
  unfolding mainBody_def Let_def
  using assms
  by (simp add: outcome_bindP world_bindP events_bindP deleteCmds_simps deleteCmds_largeSection
        split: sum.splits)

section \<open>Failures of external commands\<close>

lemma main_never_throws:
  assumes "listingsSucceed sys"
  shows "outcome (main sys args w) \<noteq> Inl (Thrown msg)"
proof
  assume "outcome (main sys args w) = Inl (Thrown msg)"
  moreover have "haltsOnly (\<lambda>h. \<forall>msg. h \<noteq> Thrown msg) (main sys args)"
    by (rule haltsOnly_main) (simp_all add: assms)
  ultimately show False
    by (auto dest: haltsOnlyD)
qed

lemma mainBody_completes:
  assumes "listingsSucceed sys" and "''--force'' \<in> set args \<or> ''--dry-run'' \<in> set args"
  shows "outcome (mainBody sys args w) = Inr ()"
proof (cases "outcome (mainBody sys args w)")
  case (Inl h)
  moreover have "haltsOnly (\<lambda>h. False) (mainBody sys args)"
    by (rule haltsOnly_mainBody) (use assms in auto)
  ultimately show ?thesis
    by (auto dest: haltsOnlyD)
next
  case (Inr u)
  then show ?thesis by simp
qed

lemma getLargeFiles_failure:
  "fst (execSync sys (largeCmd count) w) = Inl msg \<Longrightarrow> outcome (getLargeFiles sys count w) = Inr []"
  by (simp add: getLargeFiles_def outcome_tryCatch outcome_bindP run_proj)

lemma trim_Nil: "trim [] = []"
  by (simp add: trim_def trimStart.simps whiteSpaceLength_def)

lemma getMergedBranches_failure:
  assumes "run sys ''git branch --show-current'' False w = (Inr current, w1, e1)"
    and "getDefaultBranch sys w1 = (Inr defaultBranch, w2, e2)"
    and "fst (execSync sys (''git branch --merged '' @ defaultBranch) w2) = Inl msg"
  shows "outcome (getMergedBranches sys w) = Inr []"
  using assms
  by (simp add: getMergedBranches_def outcome_bindP world_bindP run_proj trim_Nil stripStar_def)

lemma show_current_failure:
  assumes "fst (execSync sys ''git branch --show-current'' w) = Inl msg"
  shows "outcome (getMergedBranches sys w) = Inl (Thrown msg)"
    and "outcome (getStaleBranches sys days w) = Inl (Thrown msg)"
  using assms
  by (simp_all add: getMergedBranches_def getStaleBranches_def outcome_bindP run_proj)

lemma branch_vv_failure:
  assumes "fst (execSync sys ''git branch -vv'' (snd (execSync sys ''git fetch --prune'' w))) = Inl msg"
  shows "outcome (getGoneBranches sys w) = Inl (Thrown msg)"
  using assms
  by (simp add: getGoneBranches_def outcome_bindP world_bindP run_proj split: sum.splits)

lemma never_halting_returns: "haltsOnly (\<lambda>h. False) p \<Longrightarrow> \<exists>x. outcome (p w) = Inr x"
  by (cases "outcome (p w)") (auto dest: haltsOnlyD)

lemma unit_completes: "haltsOnly (\<lambda>h. False) p \<Longrightarrow> outcome (p w) = Inr ()"
  by (cases "outcome (p w)") (auto dest: haltsOnlyD)

lemma enumerators_return:
  assumes "listingsSucceed sys"
  shows "\<exists>xs. outcome (getMergedBranches sys w) = Inr xs"
    and "\<exists>xs. outcome (getStaleBranches sys days w) = Inr xs"
    and "\<exists>xs. outcome (getGoneBranches sys w) = Inr xs"
  by (intro never_halting_returns haltsOnly_getMergedBranches haltsOnly_getStaleBranches
        haltsOnly_getGoneBranches disjI2 assms)+

lemma getLargeFiles_returns: "\<exists>xs. outcome (getLargeFiles sys count w) = Inr xs"
  by (intro never_halting_returns haltsOnly_getLargeFiles)

lemma branch_a_failure_no_remote:
  assumes "fst (execSync sys ''git remote'' w) = Inl m"
    and "fst (execSync sys ''git branch -a'' (snd (execSync sys ''git remote'' w))) = Inl msg"
  shows "outcome (getDefaultBranch sys w) = Inl (Thrown msg)"
  using assms
  by (simp add: getDefaultBranch_def outcome_bindP world_bindP outcome_tryCatch world_tryCatch run_proj)

lemma branch_a_failure_no_head:
  assumes "run sys ''git remote'' False w = (Inr remotes, w1, e1)"
    and "run sys (''git symbolic-ref refs/remotes/''
                  @ (if (case split (CHR 0x0A) remotes of [] \<Rightarrow> [] | r # _ \<Rightarrow> r) = [] then ''origin''
                     else (case split (CHR 0x0A) remotes of [] \<Rightarrow> [] | r # _ \<Rightarrow> r))
                  @ ''/HEAD'') True w1 = (Inr [], w2, e2)"
    and "fst (execSync sys ''git branch -a'' w2) = Inl msg"
  shows "outcome (getDefaultBranch sys w) = Inl (Thrown msg)"
  using assms
  by (simp add: getDefaultBranch_def Let_def outcome_bindP world_bindP outcome_tryCatch
        world_tryCatch run_proj del: split.simps)

lemma branch_failure:
  assumes "run sys ''git branch --show-current'' False w = (Inr current, w1, e1)"
    and "getDefaultBranch sys w1 = (Inr defaultBranch, w2, e2)"
    and "fst (execSync sys ''git branch'' w2) = Inl msg"
  shows "outcome (getStaleBranches sys days w) = Inl (Thrown msg)"
  using assms
  by (simp add: getStaleBranches_def Let_def outcome_bindP world_bindP run_proj)

lemma main_aborts_on_show_current:
  assumes "firstArg args = Some ''merged'' \<or> firstArg args = Some ''all''"
    and "execSync sys ''git rev-parse --git-dir'' w = (Inr out, w1)"
    and "fst (execSync sys ''git branch --show-current'' w1) = Inl msg"
  shows "outcome (main sys args w) = Inl (Thrown msg)"
    and "commands (events (main sys args w)) = [''git rev-parse --git-dir'', ''git branch --show-current'']"
proof -
  have nh: "\<not> isHelp args"
    using assms(1) by (auto simp: not_isHelp)
  have o: "outcome (getMergedBranches sys w1) = Inl (Thrown msg)"
    using assms(3) by (rule show_current_failure)
  have e: "events (getMergedBranches sys w1) = [Exec ''git branch --show-current'' False]"
    using assms(3) by (simp add: getMergedBranches_def events_bindP run_proj)
  have so: "outcome (mergedSection sys d f w1) = Inl (Thrown msg)" for d f
    using o by (simp add: mergedSection_def outcome_bindP)
  have se: "events (mergedSection sys d f w1) =
              [Log (c bold (symClipboard @ '' Merged Branches'')), Exec ''git branch --show-current'' False]"
    for d f
    using o e by (simp add: mergedSection_def events_bindP outcome_bindP)
  show "outcome (main sys args w) = Inl (Thrown msg)"
    using assms(1,2) so
    by (auto simp: outcome_main [OF nh] mainBody_def Let_def outcome_bindP world_bindP)
  show "commands (events (main sys args w)) = [''git rev-parse --git-dir'', ''git branch --show-current'']"
    using assms(1,2) so se
    by (auto simp: events_main [OF nh] mainBody_def Let_def outcome_bindP world_bindP events_bindP)
qed

lemma mainBody_all_events:
  assumes "listingsSucceed sys" and "dryRun \<or> force"
    and "firstArg args = Some ''all''"
    and "dryRun = (''--dry-run'' \<in> set args)" and "force = (''--force'' \<in> set args)"
    and "days = (if ''--days'' \<in> set args then parseIntArg (argAfter ''--days'' args) else Some 30)"
    and "topN = (if ''--top'' \<in> set args then parseIntArg (argAfter ''--top'' args) else Some 10)"
  shows "events (mainBody sys args w) =
     Log (c cyan (nl @ symBroom @ '' git-cleanup'' @ nl))
     # events (mergedSection sys dryRun force w)
     @ events (staleSection sys dryRun force days (world (mergedSection sys dryRun force w)))
     @ events (goneSection sys dryRun force
         (world (staleSection sys dryRun force days (world (mergedSection sys dryRun force w)))))
     @ events (largeSection sys topN
         (world (goneSection sys dryRun force
            (world (staleSection sys dryRun force days (world (mergedSection sys dryRun force w)))))))
     @ [Log (c dim (''Done!'' @ nl))]"
proof -
  have m: "outcome (mergedSection sys dryRun force w') = Inr ()" for w'
    by (intro unit_completes haltsOnly_mergedSection) (use assms(1,2) in auto)
  have s: "outcome (staleSection sys dryRun force days w') = Inr ()" for w'
    by (intro unit_completes haltsOnly_staleSection) (use assms(1,2) in auto)
  have g: "outcome (goneSection sys dryRun force w') = Inr ()" for w'
    by (intro unit_completes haltsOnly_goneSection) (use assms(1,2) in auto)
  have l: "outcome (largeSection sys topN w') = Inr ()" for w'
    by (intro unit_completes haltsOnly_largeSection)
  show ?thesis
    unfolding mainBody_def Let_def
    using assms(3) m s g l
    by (simp add: assms(4-7) [symmetric] outcome_bindP world_bindP events_bindP)
qed

lemma main_exits_iff:
  "outcome (main sys args w) = Inl (Exited n) \<longleftrightarrow>
     n = 1 \<and> \<not> isHelp args \<and> (\<exists>msg. fst (execSync sys ''git rev-parse --git-dir'' w) = Inl msg)"
proof (cases "isHelp args")
  case True
  then show ?thesis by (simp add: main_help)
next
  case False
  then show ?thesis
    by (cases "fst (execSync sys ''git rev-parse --git-dir'' w)")
       (auto simp: outcome_main mainBody_never_exits)
qed

section \<open>The enumerators\<close>

lemma staleLoop_step:
  "outcome (staleLoop sys cutoff (b # bs) stale w) =
     outcome (staleLoop sys cutoff bs
       (case fst (execSync sys (''git log -1 --format=%ci '' @ b) w) of
          Inl msg \<Rightarrow> stale
        | Inr out \<Rightarrow>
            (case (dateParse sys (trim out), cutoff) of
               (Some lastCommit, Some co) \<Rightarrow>
                 if lastCommit < co
                 then stale @ [\<lparr>branch = b,
                        daysAgo = (dateNow sys (snd (execSync sys (''git log -1 --format=%ci '' @ b) w))
                                   - lastCommit) div (24 * 60 * 60 * 1000)\<rparr>]
                 else stale
             | _ \<Rightarrow> stale))
       (snd (execSync sys (''git log -1 --format=%ci '' @ b) w)))"
  by (simp add: outcome_bindP world_bindP outcome_tryCatch world_tryCatch run_proj
        split: sum.splits option.splits)

lemma staleLoop_subset:
  "outcome (staleLoop sys cutoff bs stale w) = Inr xs \<Longrightarrow> branch ` set xs \<subseteq> branch ` set stale \<union> set bs"
proof (induction bs arbitrary: stale w)
  case Nil
  then show ?case by simp
next
  case (Cons b bs)
  from Cons.prems have "branch ` set xs \<subseteq> branch ` set
       (case fst (execSync sys (''git log -1 --format=%ci '' @ b) w) of
          Inl msg \<Rightarrow> stale
        | Inr out \<Rightarrow>
            (case (dateParse sys (trim out), cutoff) of
               (Some lastCommit, Some co) \<Rightarrow>
                 if lastCommit < co
                 then stale @ [\<lparr>branch = b,
                        daysAgo = (dateNow sys (snd (execSync sys (''git log -1 --format=%ci '' @ b) w))
                                   - lastCommit) div (24 * 60 * 60 * 1000)\<rparr>]
                 else stale
             | _ \<Rightarrow> stale)) \<union> set bs"
    by (simp only: staleLoop_step) (rule Cons.IH)
  then show ?case
    by (auto split: sum.splits option.splits if_splits)
qed

lemma run_ignore_outcome:
  "outcome (run sys cmd True w) =
     Inr (case fst (execSync sys cmd w) of Inr out \<Rightarrow> trim out | Inl msg \<Rightarrow> [])"
  by (simp add: run_proj split: sum.splits)

lemma getMergedBranches_outcome:
  assumes "run sys ''git branch --show-current'' False w = (Inr current, w1, e1)"
    and "getDefaultBranch sys w1 = (Inr defaultBranch, w2, e2)"
  shows "outcome (getMergedBranches sys w) =
     Inr (filter (\<lambda>b. b \<noteq> [] \<and> b \<noteq> current \<and> b \<noteq> defaultBranch \<and> \<not> startsWith b ''remotes/'')
            (map (\<lambda>b. stripStar (trim b))
               (split (CHR 0x0A)
                  (case fst (execSync sys (''git branch --merged '' @ defaultBranch) w2) of
                     Inr out \<Rightarrow> trim out | Inl msg \<Rightarrow> []))))"
  using assms
  by (simp add: getMergedBranches_def outcome_bindP world_bindP run_ignore_outcome)

lemma staleLoop_branches:
  assumes inv: "\<And>b w'. w' \<in> W \<Longrightarrow>
      snd (execSync sys (''git log -1 --format=%ci '' @ b) w') \<in> W
      \<and> fst (execSync sys (''git log -1 --format=%ci '' @ b) w') = lg b"
  shows "w \<in> W \<Longrightarrow>
     \<exists>xs. outcome (staleLoop sys cutoff bs stale w) = Inr xs
       \<and> branch ` set xs = branch ` set stale
           \<union> {b \<in> set bs. \<exists>s t co. lg b = Inr s \<and> dateParse sys (trim s) = Some t
                                   \<and> cutoff = Some co \<and> t < co}"
proof (induction bs arbitrary: stale w)
  case Nil
  then show ?case by simp
next
  case (Cons b bs)
  let ?w' = "snd (execSync sys (''git log -1 --format=%ci '' @ b) w)"
  let ?stale' = "case fst (execSync sys (''git log -1 --format=%ci '' @ b) w) of
          Inl msg \<Rightarrow> stale
        | Inr out \<Rightarrow>
            (case (dateParse sys (trim out), cutoff) of
               (Some lastCommit, Some co) \<Rightarrow>
                 if lastCommit < co
                 then stale @ [\<lparr>branch = b,
                        daysAgo = (dateNow sys ?w' - lastCommit) div (24 * 60 * 60 * 1000)\<rparr>]
                 else stale
             | _ \<Rightarrow> stale)"
  from inv [OF Cons.prems, of b] have w': "?w' \<in> W"
    and lg: "fst (execSync sys (''git log -1 --format=%ci '' @ b) w) = lg b"
    by simp_all
  from Cons.IH [OF w', of ?stale'] obtain xs where
    xs: "outcome (staleLoop sys cutoff bs ?stale' ?w') = Inr xs"
    and br: "branch ` set xs = branch ` set ?stale'
           \<union> {b \<in> set bs. \<exists>s t co. lg b = Inr s \<and> dateParse sys (trim s) = Some t
                                   \<and> cutoff = Some co \<and> t < co}"
    by blast
  have step: "branch ` set ?stale' = branch ` set stale
      \<union> (if \<exists>s t co. lg b = Inr s \<and> dateParse sys (trim s) = Some t \<and> cutoff = Some co \<and> t < co
         then {b} else {})"
    unfolding lg by (auto split: sum.splits option.splits)
  have "outcome (staleLoop sys cutoff (b # bs) stale w) = Inr xs"
    by (simp only: staleLoop_step xs)
  moreover have "branch ` set xs = branch ` set stale
           \<union> {b' \<in> set (b # bs). \<exists>s t co. lg b' = Inr s \<and> dateParse sys (trim s) = Some t
                                   \<and> cutoff = Some co \<and> t < co}"
    unfolding br step by auto
  ultimately show ?case by blast
qed

lemma demo_log_keeps_world:
  "snd (execSync (demoSys a) (''git log -1 --format=%ci '' @ b) w) = w"
  by (simp add: demoSys_def demoExec_def)

section \<open>The confirmation prompt\<close>

lemma of_char_eq_89: "(of_char ch :: nat) = 89 \<longleftrightarrow> ch = CHR ''Y''"
proof -
  have "(of_char ch :: nat) = of_char (CHR ''Y'') \<longleftrightarrow> ch = CHR ''Y''"
    by (rule of_char_eq_iff)
  then show ?thesis by simp
qed

lemma lowerChar_eq_y: "lowerChar ch = CHR ''y'' \<longleftrightarrow> ch = CHR ''y'' \<or> ch = CHR ''Y''"
proof (cases "65 \<le> (of_char ch :: nat) \<and> (of_char ch :: nat) \<le> 90")
  case True
  then have low: "lowerChar ch = char_of ((of_char ch :: nat) + 32)"
    by (simp add: lowerChar_def)
  have "char_of ((of_char ch :: nat) + 32) = CHR ''y''
          \<longleftrightarrow> (of_char (char_of ((of_char ch :: nat) + 32)) :: nat) = of_char (CHR ''y'')"
    by (simp only: of_char_eq_iff)
  also have "\<dots> \<longleftrightarrow> (of_char ch :: nat) = 89"
    using True by (simp add: of_char_of)
  finally have "lowerChar ch = CHR ''y'' \<longleftrightarrow> ch = CHR ''Y''"
    using low by (simp add: of_char_eq_89)
  moreover have "ch \<noteq> CHR ''y''"
    using True by auto
  ultimately show ?thesis by simp
next
  case False
  then have "lowerChar ch = ch" by (auto simp: lowerChar_def)
  moreover have "ch \<noteq> CHR ''Y''" using False by auto
  ultimately show ?thesis by simp
qed

lemma accepts_iff:
  "startsWith (toLowerCase answer) ''y'' \<longleftrightarrow> (\<exists>rest. answer = CHR ''y'' # rest \<or> answer = CHR ''Y'' # rest)"
  by (cases answer) (auto simp: toLowerCase_def lowerChar_eq_y)

text \<open>
  C7: \<open>confirm\<close> accepts the answer exactly when its first character is \<open>y\<close> or \<open>Y\<close>;
  every other answer, the empty line included, is rejected.
\<close>

theorem confirm_accepts_leading_y:
  "question sys q w = (Some answer, w1) \<Longrightarrow>
   outcome (confirm sys q w) = Inr (\<exists>rest. answer = CHR ''y'' # rest \<or> answer = CHR ''Y'' # rest)"
  by (simp add: confirm_def accepts_iff)

theorem confirm_accepts_leading_y_witness:
  "outcome (confirm (answering ''y'') ''? '' ()) = Inr True
   \<and> outcome (confirm (answering ''Yes'') ''? '' ()) = Inr True
   \<and> outcome (confirm (answering '''') ''? '' ()) = Inr False
   \<and> outcome (confirm (answering ''no'') ''? '' ()) = Inr False
   \<and> outcome (confirm (answering '' y'') ''? '' ()) = Inr False"
  using confirm_accepts_leading_y [of "answering ''y''" "''? ''" "()" "''y''" "()"]
    confirm_accepts_leading_y [of "answering ''Yes''" "''? ''" "()" "''Yes''" "()"]
    confirm_accepts_leading_y [of "answering ''''" "''? ''" "()" "''''" "()"]
    confirm_accepts_leading_y [of "answering ''no''" "''? ''" "()" "''no''" "()"]
    confirm_accepts_leading_y [of "answering '' y''" "''? ''" "()" "'' y''" "()"]
  by (simp add: answering_def)

section \<open>Exit codes\<close>

text \<open>
  C9: the exit code of the process is 0 when the help banner is shown (the first argument
  is \<open>--help\<close> or \<open>-h\<close>, or there is none) and 1 when a command is given and the
  repository check \<open>git rev-parse --git-dir\<close> fails; in every other run, however it ends,
  the exit code is 0.
\<close>

theorem exit_code_of_main:
  "exitCode (outcome (main sys args w)) =
     (if isHelp args then 0
      else case fst (execSync sys ''git rev-parse --git-dir'' w) of Inl msg \<Rightarrow> 1 | Inr out \<Rightarrow> 0)"
proof (cases "isHelp args")
  case True
  then show ?thesis by (simp add: main_help exitCode_def)
next
  case False
  show ?thesis
  proof (cases "fst (execSync sys ''git rev-parse --git-dir'' w)")
    case (Inl msg)
    then show ?thesis using False by (simp add: outcome_main exitCode_def)
  next
    case (Inr out)
    have "exitCode (outcome (mainBody sys args w')) = 0" for w'
      using mainBody_never_exits [of sys args w']
      by (auto simp: exitCode_def split: sum.splits halt.splits)
    then show ?thesis using False Inr by (simp add: outcome_main)
  qed
qed

theorem exit_code_of_main_witness:
  "exitCode (outcome (main oldGitSys [''--help''] ())) = 0
   \<and> exitCode (outcome (main oldGitSys [] ())) = 0
   \<and> exitCode (outcome (main (answering ''y'') [''merged''] ())) = 1
   \<and> exitCode (outcome (main oldGitSys [''all''] ())) = 0
   \<and> exitCode (outcome (main flakySys [''all'', ''--force''] ())) = 0"
proof -
  have "exitCode (outcome (main oldGitSys [''--help''] ())) =
          (if isHelp [''--help''] then 0
           else case fst (execSync oldGitSys ''git rev-parse --git-dir'' ()) of
                  Inl msg \<Rightarrow> 1 | Inr out \<Rightarrow> 0)"
    by (rule exit_code_of_main)
  also have "\<dots> = 0" by code_simp
  finally have banner: "exitCode (outcome (main oldGitSys [''--help''] ())) = 0" .
  have "exitCode (outcome (main oldGitSys [] ())) =
          (if isHelp [] then 0
           else case fst (execSync oldGitSys ''git rev-parse --git-dir'' ()) of
                  Inl msg \<Rightarrow> 1 | Inr out \<Rightarrow> 0)"
    by (rule exit_code_of_main)
  also have "\<dots> = 0" by code_simp
  finally have bare: "exitCode (outcome (main oldGitSys [] ())) = 0" .
  have "exitCode (outcome (main (answering ''y'') [''merged''] ())) =
          (if isHelp [''merged''] then 0
           else case fst (execSync (answering ''y'') ''git rev-parse --git-dir'' ()) of
                  Inl msg \<Rightarrow> 1 | Inr out \<Rightarrow> 0)"
    by (rule exit_code_of_main)
  also have "\<dots> = 1" by code_simp
  finally have outside: "exitCode (outcome (main (answering ''y'') [''merged''] ())) = 1" .
  have "exitCode (outcome (main oldGitSys [''all''] ())) =
          (if isHelp [''all''] then 0
           else case fst (execSync oldGitSys ''git rev-parse --git-dir'' ()) of
                  Inl msg \<Rightarrow> 1 | Inr out \<Rightarrow> 0)"
    by (rule exit_code_of_main)
  also have "\<dots> = 0" by code_simp
  finally have rejected: "exitCode (outcome (main oldGitSys [''all''] ())) = 0" .
  have "exitCode (outcome (main flakySys [''all'', ''--force''] ())) =
          (if isHelp [''all'', ''--force''] then 0
           else case fst (execSync flakySys ''git rev-parse --git-dir'' ()) of
                  Inl msg \<Rightarrow> 1 | Inr out \<Rightarrow> 0)"
    by (rule exit_code_of_main)
  also have "\<dots> = 0" by code_simp
  finally have completed: "exitCode (outcome (main flakySys [''all'', ''--force''] ())) = 0" .
  from banner bare outside rejected completed show ?thesis by blast
qed

section \<open>Dry run\<close>

text \<open>
  C5: when \<open>--dry-run\<close> is among the arguments, no run of \<open>main\<close> issues a delete call,
  whatever the command, the other flags, the state of the repository and the answers
  at the prompt.
\<close>

theorem dry_run_never_deletes:
  assumes "''--dry-run'' \<in> set args"
  shows "filter isDeleteCall (events (main sys args w)) = []"
proof -
  have "emitsOnly (\<lambda>e. \<not> isDeleteCall e) (main sys args)"
    by (rule emitsOnly_main) (simp_all add: allowsQueries_def assms)
  then show ?thesis
    by (simp add: emitsOnly_def list_all_iff filter_empty_conv)
qed

text \<open>
  In the repository \<open>oldGitSys\<close> the command \<open>gone --force\<close> deletes the branch \<open>old\<close>;
  with \<open>--dry-run\<close> added it deletes nothing.
\<close>

theorem dry_run_never_deletes_witness:
  "commands (events (main oldGitSys [''gone'', ''--force''] ())) =
     [''git rev-parse --git-dir'', ''git fetch --prune'', ''git branch -vv'', ''git branch -D old'']
   \<and> filter isDeleteCall (events (main oldGitSys [''gone'', ''--dry-run'', ''--force''] ())) = []"
proof -
  have "''--dry-run'' \<in> set [''gone'', ''--dry-run'', ''--force'']"
    by simp
  then have "filter isDeleteCall (events (main oldGitSys [''gone'', ''--dry-run'', ''--force''] ())) = []"
    by (rule dry_run_never_deletes)
  moreover have "commands (events (main oldGitSys [''gone'', ''--force''] ())) =
     [''git rev-parse --git-dir'', ''git fetch --prune'', ''git branch -vv'', ''git branch -D old'']"
    by code_simp
  ultimately show ?thesis by blast
qed

section \<open>Force\<close>

text \<open>
  C8: when \<open>--force\<close> is among the arguments and \<open>--dry-run\<close> is not, no run of \<open>main\<close>
  asks for confirmation, and each of the commands \<open>merged\<close>, \<open>stale\<close> and \<open>gone\<close> (and
  \<open>all\<close>, which runs the three in turn) goes on to delete: once the repository check has
  passed and the enumerator has returned its candidates, the delete calls of the run are
  exactly one per candidate, in order.
\<close>

theorem force_skips_prompt:
  assumes "''--force'' \<in> set args" and "''--dry-run'' \<notin> set args"
    and "days = (if ''--days'' \<in> set args then parseIntArg (argAfter ''--days'' args) else Some 30)"
  shows "filter isPrompt (events (main sys args w)) = []
    \<and> (\<forall>out w1 merged w2 e2.
          firstArg args = Some ''merged'' \<longrightarrow>
          execSync sys ''git rev-parse --git-dir'' w = (Inr out, w1) \<longrightarrow>
          getMergedBranches sys w1 = (Inr merged, w2, e2) \<longrightarrow>
          deleteCmds (events (main sys args w)) = map (\<lambda>b. ''git branch -d '' @ b) merged)
    \<and> (\<forall>out w1 stale w2 e2.
          firstArg args = Some ''stale'' \<longrightarrow>
          execSync sys ''git rev-parse --git-dir'' w = (Inr out, w1) \<longrightarrow>
          getStaleBranches sys days w1 = (Inr stale, w2, e2) \<longrightarrow>
          deleteCmds (events (main sys args w)) = map (\<lambda>x. ''git branch -D '' @ branch x) stale)
    \<and> (\<forall>out w1 gone w2 e2.
          firstArg args = Some ''gone'' \<longrightarrow>
          execSync sys ''git rev-parse --git-dir'' w = (Inr out, w1) \<longrightarrow>
          getGoneBranches sys w1 = (Inr gone, w2, e2) \<longrightarrow>
          deleteCmds (events (main sys args w)) = map (\<lambda>b. ''git branch -D '' @ b) gone)
    \<and> (\<forall>out w1 merged w2 e2 stale w3 e3 gone w4 e4.
          firstArg args = Some ''all'' \<longrightarrow>
          execSync sys ''git rev-parse --git-dir'' w = (Inr out, w1) \<longrightarrow>
          getMergedBranches sys w1 = (Inr merged, w2, e2) \<longrightarrow>
          getStaleBranches sys days (world (mergedSection sys False True w1)) = (Inr stale, w3, e3) \<longrightarrow>
          getGoneBranches sys
            (world (staleSection sys False True days (world (mergedSection sys False True w1))))
            = (Inr gone, w4, e4) \<longrightarrow>
          deleteCmds (events (main sys args w)) =
            map (\<lambda>b. ''git branch -d '' @ b) merged @ map (\<lambda>x. ''git branch -D '' @ branch x) stale
            @ map (\<lambda>b. ''git branch -D '' @ b) gone)"
proof (intro conjI allI impI)
  have "emitsOnly (\<lambda>e. \<not> isPrompt e) (main sys args)"
    by (rule emitsOnly_main) (simp_all add: allowsQueries_def assms(1))
  then show "filter isPrompt (events (main sys args w)) = []"
    by (simp add: emitsOnly_def list_all_iff filter_empty_conv)
next
  fix out w1 merged w2 e2
  assume a: "firstArg args = Some ''merged''"
    "execSync sys ''git rev-parse --git-dir'' w = (Inr out, w1)"
    "getMergedBranches sys w1 = (Inr merged, w2, e2)"
  have "deleteCmds (events (main sys args w)) = deleteCmds (events (mainBody sys args w1))"
    using a(1,2) by (simp add: deleteCmds_main not_isHelp)
  also have "\<dots> = map (deleteCmd False) merged"
    using a(1) assms(1,2) by (simp add: mainBody_merged mergedSection_deleteCmds [OF a(3)])
  finally show "deleteCmds (events (main sys args w)) = map (\<lambda>b. ''git branch -d '' @ b) merged"
    by (simp add: deleteCmd_unfold)
next
  fix out w1 stale w2 e2
  assume a: "firstArg args = Some ''stale''"
    "execSync sys ''git rev-parse --git-dir'' w = (Inr out, w1)"
    "getStaleBranches sys days w1 = (Inr stale, w2, e2)"
  have "deleteCmds (events (main sys args w)) = deleteCmds (events (mainBody sys args w1))"
    using a(1,2) by (simp add: deleteCmds_main not_isHelp)
  also have "\<dots> = map (deleteCmd True) (map branch stale)"
    using a(1) assms(1,2) assms(3) [symmetric]
    by (simp add: mainBody_stale staleSection_deleteCmds [OF a(3)])
  finally show "deleteCmds (events (main sys args w)) = map (\<lambda>x. ''git branch -D '' @ branch x) stale"
    by (simp add: deleteCmd_unfold comp_def)
next
  fix out w1 gone w2 e2
  assume a: "firstArg args = Some ''gone''"
    "execSync sys ''git rev-parse --git-dir'' w = (Inr out, w1)"
    "getGoneBranches sys w1 = (Inr gone, w2, e2)"
  have "deleteCmds (events (main sys args w)) = deleteCmds (events (mainBody sys args w1))"
    using a(1,2) by (simp add: deleteCmds_main not_isHelp)
  also have "\<dots> = map (deleteCmd True) gone"
    using a(1) assms(1,2) by (simp add: mainBody_gone goneSection_deleteCmds [OF a(3)])
  finally show "deleteCmds (events (main sys args w)) = map (\<lambda>b. ''git branch -D '' @ b) gone"
    by (simp add: deleteCmd_unfold)
next
  fix out w1 merged w2 e2 stale w3 e3 gone w4 e4
  assume a: "firstArg args = Some ''all''"
    "execSync sys ''git rev-parse --git-dir'' w = (Inr out, w1)"
    "getMergedBranches sys w1 = (Inr merged, w2, e2)"
    "getStaleBranches sys days (world (mergedSection sys False True w1)) = (Inr stale, w3, e3)"
    "getGoneBranches sys
       (world (staleSection sys False True days (world (mergedSection sys False True w1))))
       = (Inr gone, w4, e4)"
  have "deleteCmds (events (main sys args w)) = deleteCmds (events (mainBody sys args w1))"
    using a(1,2) by (simp add: deleteCmds_main not_isHelp)
  also have "\<dots> = map (deleteCmd False) merged @ map (deleteCmd True) (map branch stale)
                     @ map (deleteCmd True) gone"
    by (rule mainBody_all [OF a(1) assms(1,2,3) a(3,4,5)])
  finally show "deleteCmds (events (main sys args w)) =
            map (\<lambda>b. ''git branch -d '' @ b) merged @ map (\<lambda>x. ''git branch -D '' @ branch x) stale
            @ map (\<lambda>b. ''git branch -D '' @ b) gone"
    by (simp add: deleteCmd_unfold comp_def)
qed

text \<open>
  In the demo repository the terminal has ended, so a prompt would never be answered:
  \<open>gone --force\<close> deletes \<open>old\<close> without asking, \<open>gone\<close> alone asks.
\<close>

theorem force_skips_prompt_witness:
  "filter isPrompt (events (main (demoSys None) [''gone'', ''--force''] [''feature/a'', ''old''])) = []
   \<and> deleteCmds (events (main (demoSys None) [''gone'', ''--force''] [''feature/a'', ''old'']))
       = [''git branch -D old'']
   \<and> filter isPrompt (events (main (demoSys None) [''gone''] [''feature/a'', ''old'']))
       = [Ask ''   Delete 1 gone branch(es)? [y/N] '']"
proof -
  have f: "''--force'' \<in> set [''gone'', ''--force'']" by simp
  have d: "''--dry-run'' \<notin> set [''gone'', ''--force'']" by simp
  have days: "Some 30 = (if ''--days'' \<in> set [''gone'', ''--force'']
                          then parseIntArg (argAfter ''--days'' [''gone'', ''--force'']) else Some 30)"
    by simp
  note T = force_skips_prompt [OF f d days, of "demoSys None" "[''feature/a'', ''old'']"]
  have a: "firstArg [''gone'', ''--force''] = Some ''gone''"
    by code_simp
  have r: "execSync (demoSys None) ''git rev-parse --git-dir'' [''feature/a'', ''old'']
             = (Inr (''.git'' @ nl), [''feature/a'', ''old''])"
    by code_simp
  have g: "getGoneBranches (demoSys None) [''feature/a'', ''old'']
             = (Inr [''old''], [''feature/a'', ''old''],
                [Exec ''git fetch --prune'' True, Exec ''git branch -vv'' True])"
    by code_simp
  from T have quiet:
    "filter isPrompt (events (main (demoSys None) [''gone'', ''--force''] [''feature/a'', ''old''])) = []"
    by blast
  from T a r g have
    "deleteCmds (events (main (demoSys None) [''gone'', ''--force''] [''feature/a'', ''old'']))
       = map (\<lambda>b. ''git branch -D '' @ b) [''old'']"
    by blast
  then have deletes:
    "deleteCmds (events (main (demoSys None) [''gone'', ''--force''] [''feature/a'', ''old'']))
       = [''git branch -D old'']"
    by simp
  have asked: "filter isPrompt (events (main (demoSys None) [''gone''] [''feature/a'', ''old'']))
       = [Ask ''   Delete 1 gone branch(es)? [y/N] '']"
    by code_simp
  from quiet deletes asked show ?thesis by blast
qed

section \<open>Delete mode\<close>

text \<open>
  C10: whatever the flags, every delete call of the command \<open>merged\<close> is the unforced
  \<open>git branch -d\<close> and every delete call of the commands \<open>stale\<close> and \<open>gone\<close> is the
  forced \<open>git branch -D\<close>. Once the repository check has passed and the enumerator has
  returned its candidates, the delete calls of the run are exactly one per candidate, in
  that mode and in order, when the deletion block is reached (no dry run, and forced or
  confirmed at the prompt), and none otherwise. The same holds for each of the three
  sections of the command \<open>all\<close>, in a run where no prompt is left unanswered.
  \<open>--force\<close> enters only the condition under which the deletion happens, never the
  commands that delete.
\<close>

theorem delete_mode_by_subcommand:
  assumes flags: "dryRun = (''--dry-run'' \<in> set args)" "force = (''--force'' \<in> set args)"
    "days = (if ''--days'' \<in> set args then parseIntArg (argAfter ''--days'' args) else Some 30)"
  shows
  "(firstArg args = Some ''merged'' \<longrightarrow>
      (\<forall>cmd \<in> set (deleteCmds (events (main sys args w))). startsWith cmd ''git branch -d ''))
   \<and> (firstArg args = Some ''stale'' \<or> firstArg args = Some ''gone'' \<longrightarrow>
      (\<forall>cmd \<in> set (deleteCmds (events (main sys args w))). startsWith cmd ''git branch -D ''))
   \<and> (\<forall>out w1 merged w2 e2.
        firstArg args = Some ''merged'' \<longrightarrow>
        execSync sys ''git rev-parse --git-dir'' w = (Inr out, w1) \<longrightarrow>
        getMergedBranches sys w1 = (Inr merged, w2, e2) \<longrightarrow>
        deleteCmds (events (main sys args w)) =
          (if deletionProceeds sys dryRun force
                (''   Delete '' @ showNat (length merged) @ '' merged branch(es)? [y/N] '') w2
           then map (\<lambda>b. ''git branch -d '' @ b) merged else []))
   \<and> (\<forall>out w1 stale w2 e2.
        firstArg args = Some ''stale'' \<longrightarrow>
        execSync sys ''git rev-parse --git-dir'' w = (Inr out, w1) \<longrightarrow>
        getStaleBranches sys days w1 = (Inr stale, w2, e2) \<longrightarrow>
        deleteCmds (events (main sys args w)) =
          (if deletionProceeds sys dryRun force
                (''   Delete '' @ showNat (length stale) @ '' stale branch(es)? [y/N] '') w2
           then map (\<lambda>x. ''git branch -D '' @ branch x) stale else []))
   \<and> (\<forall>out w1 gone w2 e2.
        firstArg args = Some ''gone'' \<longrightarrow>
        execSync sys ''git rev-parse --git-dir'' w = (Inr out, w1) \<longrightarrow>
        getGoneBranches sys w1 = (Inr gone, w2, e2) \<longrightarrow>
        deleteCmds (events (main sys args w)) =
          (if deletionProceeds sys dryRun force
                (''   Delete '' @ showNat (length gone) @ '' gone branch(es)? [y/N] '') w2
           then map (\<lambda>b. ''git branch -D '' @ b) gone else []))
   \<and> (\<forall>out w1 merged wm em stale ws es gone wg eg.
        firstArg args = Some ''all'' \<longrightarrow>
        execSync sys ''git rev-parse --git-dir'' w = (Inr out, w1) \<longrightarrow>
        getMergedBranches sys w1 = (Inr merged, wm, em) \<longrightarrow>
        outcome (mergedSection sys dryRun force w1) = Inr () \<longrightarrow>
        getStaleBranches sys days (world (mergedSection sys dryRun force w1)) = (Inr stale, ws, es) \<longrightarrow>
        outcome (staleSection sys dryRun force days (world (mergedSection sys dryRun force w1))) = Inr () \<longrightarrow>
        getGoneBranches sys
          (world (staleSection sys dryRun force days (world (mergedSection sys dryRun force w1))))
          = (Inr gone, wg, eg) \<longrightarrow>
        deleteCmds (events (main sys args w)) =
          (if deletionProceeds sys dryRun force
                (''   Delete '' @ showNat (length merged) @ '' merged branch(es)? [y/N] '') wm
           then map (\<lambda>b. ''git branch -d '' @ b) merged else [])
          @ (if deletionProceeds sys dryRun force
                (''   Delete '' @ showNat (length stale) @ '' stale branch(es)? [y/N] '') ws
             then map (\<lambda>x. ''git branch -D '' @ branch x) stale else [])
          @ (if deletionProceeds sys dryRun force
                (''   Delete '' @ showNat (length gone) @ '' gone branch(es)? [y/N] '') wg
             then map (\<lambda>b. ''git branch -D '' @ b) gone else []))"
proof (intro conjI allI impI)
  assume "firstArg args = Some ''merged''"
  then show "\<forall>cmd \<in> set (deleteCmds (events (main sys args w))). startsWith cmd ''git branch -d ''"
    by (intro main_delete_mode) simp_all
next
  assume "firstArg args = Some ''stale'' \<or> firstArg args = Some ''gone''"
  then show "\<forall>cmd \<in> set (deleteCmds (events (main sys args w))). startsWith cmd ''git branch -D ''"
    by (intro main_delete_mode) auto
next
  fix out w1 merged w2 e2
  assume a: "firstArg args = Some ''merged''"
    "execSync sys ''git rev-parse --git-dir'' w = (Inr out, w1)"
    "getMergedBranches sys w1 = (Inr merged, w2, e2)"
  have "deleteCmds (events (main sys args w)) = deleteCmds (events (mainBody sys args w1))"
    using a(1,2) by (simp add: deleteCmds_main not_isHelp)
  also have "\<dots> = deleteCmds (events (mergedSection sys dryRun force w1))"
    using a(1) by (simp add: mainBody_merged flags)
  finally show "deleteCmds (events (main sys args w)) =
          (if deletionProceeds sys dryRun force
                (''   Delete '' @ showNat (length merged) @ '' merged branch(es)? [y/N] '') w2
           then map (\<lambda>b. ''git branch -d '' @ b) merged else [])"
    by (simp only: mergedSection_exact [OF a(3)])
next
  fix out w1 stale w2 e2
  assume a: "firstArg args = Some ''stale''"
    "execSync sys ''git rev-parse --git-dir'' w = (Inr out, w1)"
    "getStaleBranches sys days w1 = (Inr stale, w2, e2)"
  have "deleteCmds (events (main sys args w)) = deleteCmds (events (mainBody sys args w1))"
    using a(1,2) by (simp add: deleteCmds_main not_isHelp)
  also have "\<dots> = deleteCmds (events (staleSection sys dryRun force days w1))"
    using a(1) by (simp add: mainBody_stale flags)
  finally show "deleteCmds (events (main sys args w)) =
          (if deletionProceeds sys dryRun force
                (''   Delete '' @ showNat (length stale) @ '' stale branch(es)? [y/N] '') w2
           then map (\<lambda>x. ''git branch -D '' @ branch x) stale else [])"
    by (simp only: staleSection_exact [OF a(3)])
next
  fix out w1 gone w2 e2
  assume a: "firstArg args = Some ''gone''"
    "execSync sys ''git rev-parse --git-dir'' w = (Inr out, w1)"
    "getGoneBranches sys w1 = (Inr gone, w2, e2)"
  have "deleteCmds (events (main sys args w)) = deleteCmds (events (mainBody sys args w1))"
    using a(1,2) by (simp add: deleteCmds_main not_isHelp)
  also have "\<dots> = deleteCmds (events (goneSection sys dryRun force w1))"
    using a(1) by (simp add: mainBody_gone flags)
  finally show "deleteCmds (events (main sys args w)) =
          (if deletionProceeds sys dryRun force
                (''   Delete '' @ showNat (length gone) @ '' gone branch(es)? [y/N] '') w2
           then map (\<lambda>b. ''git branch -D '' @ b) gone else [])"
    by (simp only: goneSection_exact [OF a(3)])
next
  fix out w1 merged wm em stale ws es gone wg eg
  assume a: "firstArg args = Some ''all''"
    "execSync sys ''git rev-parse --git-dir'' w = (Inr out, w1)"
    and m: "getMergedBranches sys w1 = (Inr merged, wm, em)"
    and om: "outcome (mergedSection sys dryRun force w1) = Inr ()"
    and s: "getStaleBranches sys days (world (mergedSection sys dryRun force w1)) = (Inr stale, ws, es)"
    and os: "outcome (staleSection sys dryRun force days (world (mergedSection sys dryRun force w1))) = Inr ()"
    and g: "getGoneBranches sys
          (world (staleSection sys dryRun force days (world (mergedSection sys dryRun force w1))))
          = (Inr gone, wg, eg)"
  have "deleteCmds (events (main sys args w)) = deleteCmds (events (mainBody sys args w1))"
    using a by (simp add: deleteCmds_main not_isHelp)
  also have "\<dots> =
     deleteCmds (events (mergedSection sys dryRun force w1))
     @ deleteCmds (events (staleSection sys dryRun force days (world (mergedSection sys dryRun force w1))))
     @ deleteCmds (events (goneSection sys dryRun force
           (world (staleSection sys dryRun force days (world (mergedSection sys dryRun force w1))))))"
    using mainBody_all_sections [OF a(1), of sys w1] om os
    by (simp only: flags [symmetric])
  finally show "deleteCmds (events (main sys args w)) =
          (if deletionProceeds sys dryRun force
                (''   Delete '' @ showNat (length merged) @ '' merged branch(es)? [y/N] '') wm
           then map (\<lambda>b. ''git branch -d '' @ b) merged else [])
          @ (if deletionProceeds sys dryRun force
                (''   Delete '' @ showNat (length stale) @ '' stale branch(es)? [y/N] '') ws
             then map (\<lambda>x. ''git branch -D '' @ branch x) stale else [])
          @ (if deletionProceeds sys dryRun force
                (''   Delete '' @ showNat (length gone) @ '' gone branch(es)? [y/N] '') wg
             then map (\<lambda>b. ''git branch -D '' @ b) gone else [])"
    by (simp only: mergedSection_exact [OF m] staleSection_exact [OF s] goneSection_exact [OF g])
qed

text \<open>
  In the demo repository \<open>gone\<close> deletes \<open>old\<close> with \<open>-D\<close> when confirmed or forced, and
  nothing when declined, unanswered or in a dry run; \<open>stale --days 60\<close> deletes \<open>old\<close>
  with \<open>-D\<close> and \<open>merged\<close> deletes \<open>feature/a\<close> with \<open>-d\<close>, confirmed or forced; \<open>all\<close>
  does both.
\<close>

theorem delete_mode_by_subcommand_witness:
  "deleteCmds (events (main (demoSys (Some ''y'')) [''gone''] [''feature/a'', ''old'', ''recent'']))
     = [''git branch -D old'']
   \<and> deleteCmds (events (main (demoSys None) [''gone'', ''--force''] [''feature/a'', ''old'', ''recent'']))
     = [''git branch -D old'']
   \<and> deleteCmds (events (main (demoSys (Some ''n'')) [''gone''] [''feature/a'', ''old'', ''recent'']))
     = []
   \<and> deleteCmds (events (main (demoSys None) [''gone''] [''feature/a'', ''old'', ''recent'']))
     = []
   \<and> deleteCmds (events (main (demoSys (Some ''y'')) [''gone'', ''--dry-run'']
        [''feature/a'', ''old'', ''recent''])) = []
   \<and> deleteCmds (events (main (demoSys (Some ''y'')) [''stale'', ''--days'', ''60'']
        [''feature/a'', ''old'', ''recent''])) = [''git branch -D old'']
   \<and> deleteCmds (events (main (demoSys None) [''stale'', ''--days'', ''60'', ''--force'']
        [''feature/a'', ''old'', ''recent''])) = [''git branch -D old'']
   \<and> deleteCmds (events (main (demoSys (Some ''y'')) [''merged'']
        [''feature/a'', ''old'', ''recent''])) = [''git branch -d feature/a'']
   \<and> deleteCmds (events (main (demoSys None) [''merged'', ''--force'']
        [''feature/a'', ''old'', ''recent''])) = [''git branch -d feature/a'']
   \<and> deleteCmds (events (main (demoSys (Some ''y'')) [''all'', ''--days'', ''60'']
        [''feature/a'', ''old'', ''recent'']))
     = [''git branch -d feature/a'', ''git branch -D old'']"
proof -
  have f1: "False = (''--dry-run'' \<in> set [''gone''])" by simp
  have f2: "False = (''--force'' \<in> set [''gone''])" by simp
  have f3: "Some 30 = (if ''--days'' \<in> set [''gone'']
                        then parseIntArg (argAfter ''--days'' [''gone'']) else Some 30)"
    by simp
  note T = delete_mode_by_subcommand [OF f1 f2 f3, of "demoSys (Some ''y'')"
      "[''feature/a'', ''old'', ''recent'']"]
  have a: "firstArg [''gone''] = Some ''gone''"
    by code_simp
  have r: "execSync (demoSys (Some ''y'')) ''git rev-parse --git-dir'' [''feature/a'', ''old'', ''recent'']
             = (Inr (''.git'' @ nl), [''feature/a'', ''old'', ''recent''])"
    by code_simp
  have g: "getGoneBranches (demoSys (Some ''y'')) [''feature/a'', ''old'', ''recent'']
             = (Inr [''old''], [''feature/a'', ''old'', ''recent''],
                [Exec ''git fetch --prune'' True, Exec ''git branch -vv'' True])"
    by code_simp
  have "deleteCmds (events (main (demoSys (Some ''y'')) [''gone''] [''feature/a'', ''old'', ''recent'']))
      = (if deletionProceeds (demoSys (Some ''y'')) False False
              (''   Delete '' @ showNat (length [''old'']) @ '' gone branch(es)? [y/N] '')
              [''feature/a'', ''old'', ''recent'']
         then map (\<lambda>b. ''git branch -D '' @ b) [''old''] else [])"
    by (rule T [THEN conjunct2, THEN conjunct2, THEN conjunct2, THEN conjunct2, THEN conjunct1,
          rule_format, OF a r g])
  also have "\<dots> = [''git branch -D old'']"
    by code_simp
  finally have confirmed:
    "deleteCmds (events (main (demoSys (Some ''y'')) [''gone''] [''feature/a'', ''old'', ''recent'']))
       = [''git branch -D old'']" .
  have forced:
    "deleteCmds (events (main (demoSys None) [''gone'', ''--force''] [''feature/a'', ''old'', ''recent'']))
       = [''git branch -D old'']"
    by code_simp
  have declined:
    "deleteCmds (events (main (demoSys (Some ''n'')) [''gone''] [''feature/a'', ''old'', ''recent''])) = []"
    by code_simp
  have unanswered:
    "deleteCmds (events (main (demoSys None) [''gone''] [''feature/a'', ''old'', ''recent''])) = []"
    by code_simp
  have dry:
    "deleteCmds (events (main (demoSys (Some ''y'')) [''gone'', ''--dry-run'']
        [''feature/a'', ''old'', ''recent''])) = []"
    by code_simp
  have s1: "deleteCmds (events (main (demoSys (Some ''y'')) [''stale'', ''--days'', ''60'']
        [''feature/a'', ''old'', ''recent''])) = [''git branch -D old'']"
    by code_simp
  have s2: "deleteCmds (events (main (demoSys None) [''stale'', ''--days'', ''60'', ''--force'']
        [''feature/a'', ''old'', ''recent''])) = [''git branch -D old'']"
    by code_simp
  have m1: "deleteCmds (events (main (demoSys (Some ''y'')) [''merged'']
        [''feature/a'', ''old'', ''recent''])) = [''git branch -d feature/a'']"
    by code_simp
  have m2: "deleteCmds (events (main (demoSys None) [''merged'', ''--force'']
        [''feature/a'', ''old'', ''recent''])) = [''git branch -d feature/a'']"
    by code_simp
  have every: "deleteCmds (events (main (demoSys (Some ''y'')) [''all'', ''--days'', ''60'']
        [''feature/a'', ''old'', ''recent'']))
     = [''git branch -d feature/a'', ''git branch -D old'']"
    by code_simp
  from confirmed forced declined unanswered dry s1 s2 m1 m2 every show ?thesis
    by (intro conjI)
qed

section \<open>The deletion report\<close>

text \<open>
  C4: in every deletion batch there is one delete call for each branch, the number of
  delete calls that succeeded is at most the number of branches, and the report that ends
  the batch prints that number of successes out of the number of branches. In the
  scenario (the repository check passes and the merged branches are \<open>feature/a\<close> and
  \<open>feature/b\<close>), \<open>merged --force\<close> issues exactly the two delete calls
  \<open>git branch -d feature/a\<close> and \<open>git branch -d feature/b\<close>, and when both succeed it
  reports \<open>Deleted 2/2 branches\<close>.
\<close>

theorem deleted_count_report:
  "(length (filter isDeleteCall (events (deleteBatch sys force bs w))) = length bs
    \<and> length (filter isDeleteSuccess (events (deleteBatch sys force bs w))) \<le> length bs
    \<and> last (events (deleteBatch sys force bs w)) =
        Log (deletedLine (length (filter isDeleteSuccess (events (deleteBatch sys force bs w))))
               (length bs)))
   \<and> (\<forall>out w1 w2 e2.
        execSync sys ''git rev-parse --git-dir'' w = (Inr out, w1) \<longrightarrow>
        getMergedBranches sys w1 = (Inr [''feature/a'', ''feature/b''], w2, e2) \<longrightarrow>
        deleteCmds (events (main sys [''merged'', ''--force''] w)) =
          [''git branch -d feature/a'', ''git branch -d feature/b'']
        \<and> (\<forall>o1 w3 o2 w4.
              execSync sys ''git branch -d feature/a'' w2 = (Inr o1, w3) \<longrightarrow>
              execSync sys ''git branch -d feature/b'' w3 = (Inr o2, w4) \<longrightarrow>
              Log (c green (nl @ ''   Deleted 2/2 branches'' @ nl))
                \<in> set (events (main sys [''merged'', ''--force''] w))))"
proof (intro conjI allI impI)
  show calls: "length (filter isDeleteCall (events (deleteBatch sys force bs w))) = length bs"
    by (rule deleteBatch_calls)
  show "length (filter isDeleteSuccess (events (deleteBatch sys force bs w))) \<le> length bs"
    using success_le_calls [of "events (deleteBatch sys force bs w)"] calls by simp
  show "last (events (deleteBatch sys force bs w)) =
        Log (deletedLine (length (filter isDeleteSuccess (events (deleteBatch sys force bs w))))
               (length bs))"
    by (simp add: deleteBatch_proj)
next
  fix out w1 w2 e2
  assume a: "execSync sys ''git rev-parse --git-dir'' w = (Inr out, w1)"
    "getMergedBranches sys w1 = (Inr [''feature/a'', ''feature/b''], w2, e2)"
  have "deleteCmds (events (main sys [''merged'', ''--force''] w))
          = deleteCmds (events (mainBody sys [''merged'', ''--force''] w1))"
    using a(1) by (simp add: deleteCmds_main isHelp_def firstArg_def)
  also have "\<dots> = map (deleteCmd False) [''feature/a'', ''feature/b'']"
    by (simp add: mainBody_merged firstArg_def mergedSection_deleteCmds [OF a(2)])
  finally show "deleteCmds (events (main sys [''merged'', ''--force''] w)) =
          [''git branch -d feature/a'', ''git branch -d feature/b'']"
    by (simp add: deleteCmd_def)
next
  fix out w1 w2 e2 o1 w3 o2 w4
  assume a: "execSync sys ''git rev-parse --git-dir'' w = (Inr out, w1)"
    "getMergedBranches sys w1 = (Inr [''feature/a'', ''feature/b''], w2, e2)"
    "execSync sys ''git branch -d feature/a'' w2 = (Inr o1, w3)"
    "execSync sys ''git branch -d feature/b'' w3 = (Inr o2, w4)"
  show "Log (c green (nl @ ''   Deleted 2/2 branches'' @ nl))
          \<in> set (events (main sys [''merged'', ''--force''] w))"
    by (simp add: scenario_main [OF a(1,2)] scenario_events [OF a])
qed

theorem deleted_count_report_witness:
  "deleteCmds (events (main (demoSys None) [''merged'', ''--force''] [''feature/a'', ''feature/b'']))
     = [''git branch -d feature/a'', ''git branch -d feature/b'']
   \<and> Log (c green (nl @ ''   Deleted 2/2 branches'' @ nl))
       \<in> set (events (main (demoSys None) [''merged'', ''--force''] [''feature/a'', ''feature/b'']))
   \<and> last (events (deleteBatch (demoSys None) False [''feature/a'', ''ghost''] [''feature/a'']))
       = Log (c green (nl @ ''   Deleted 1/2 branches'' @ nl))"
proof -
  note T = deleted_count_report [of "demoSys None" False "[''feature/a'', ''ghost'']" "[''feature/a'']"]
  have "last (events (deleteBatch (demoSys None) False [''feature/a'', ''ghost''] [''feature/a''])) =
        Log (deletedLine (length (filter isDeleteSuccess
               (events (deleteBatch (demoSys None) False [''feature/a'', ''ghost''] [''feature/a'']))))
               (length [''feature/a'', ''ghost'']))"
    using T by blast
  also have "\<dots> = Log (c green (nl @ ''   Deleted 1/2 branches'' @ nl))"
    by code_simp
  finally have partial: "last (events (deleteBatch (demoSys None) False [''feature/a'', ''ghost''] [''feature/a'']))
       = Log (c green (nl @ ''   Deleted 1/2 branches'' @ nl))" .
  note S = deleted_count_report [of "demoSys None" False "[]" "[''feature/a'', ''feature/b'']"]
  have r: "execSync (demoSys None) ''git rev-parse --git-dir'' [''feature/a'', ''feature/b'']
             = (Inr (''.git'' @ nl), [''feature/a'', ''feature/b''])"
    by code_simp
  have m: "getMergedBranches (demoSys None) [''feature/a'', ''feature/b'']
             = (Inr [''feature/a'', ''feature/b''], [''feature/a'', ''feature/b''],
                [Exec ''git branch --show-current'' True, Exec ''git remote'' True,
                 Exec ''git symbolic-ref refs/remotes/origin/HEAD'' True,
                 Exec ''git branch --merged main'' True])"
    by code_simp
  have d1: "execSync (demoSys None) ''git branch -d feature/a'' [''feature/a'', ''feature/b'']
             = (Inr (''Deleted branch feature/a.'' @ nl), [''feature/b''])"
    by code_simp
  have d2: "execSync (demoSys None) ''git branch -d feature/b'' [''feature/b'']
             = (Inr (''Deleted branch feature/b.'' @ nl), [])"
    by code_simp
  from S r m have twice: "deleteCmds (events (main (demoSys None) [''merged'', ''--force''] [''feature/a'', ''feature/b'']))
     = [''git branch -d feature/a'', ''git branch -d feature/b'']"
    by blast
  from S r m d1 d2 have report: "Log (c green (nl @ ''   Deleted 2/2 branches'' @ nl))
       \<in> set (events (main (demoSys None) [''merged'', ''--force''] [''feature/a'', ''feature/b'']))"
    by blast
  from twice report partial show ?thesis by blast
qed

section \<open>Which failures are caught\<close>

text \<open>
  C3, as stated, fails: \<open>git branch --show-current\<close>, \<open>git branch -a\<close>, \<open>git branch\<close> and
  \<open>git branch -vv\<close> are run without \<open>ignoreError\<close> and outside any \<open>try\<close>. Where the
  first of them fails, \<open>all\<close> ends in the merged subcommand with a rejected \<open>main\<close>; the
  stale, gone and large subcommands never run, though the gone subcommand would have found
  the branch \<open>old\<close>.
\<close>

theorem listing_failure_aborts_counterexample:
  "outcome (main oldGitSys [''all'', ''--force''] ())
     = Inl (Thrown ''Command failed: git branch --show-current'')
   \<and> commands (events (main oldGitSys [''all'', ''--force''] ()))
     = [''git rev-parse --git-dir'', ''git branch --show-current'']
   \<and> outcome (getGoneBranches oldGitSys ()) = Inr [''old'']"
  by code_simp

text \<open>
  C3, amended. The failures that are caught are those of the calls made with
  \<open>ignoreError\<close> or inside a \<open>try\<close> block; the four branch listings are not among them.
  \<^item> Provided the four listings succeed, \<open>main\<close> never throws and each of the merged,
    stale and gone enumerators returns a list, whichever other commands fail; the
    large-file enumerator returns a list in any case.
  \<^item> A failure of the large-file pipeline or of \<open>git branch --merged\<close> gives the empty
    list.
  \<^item> A failure of one of the four listings is thrown by the enumerator that runs it:
    \<open>git branch --show-current\<close> by the merged and the stale enumerator,
    \<open>git branch -a\<close> by \<open>getDefaultBranch\<close> when the fallback is reached (no remote, or no
    symbolic reference), \<open>git branch\<close> by the stale enumerator, \<open>git branch -vv\<close> by the
    gone enumerator. When \<open>git branch --show-current\<close> fails under the command \<open>merged\<close>
    or \<open>all\<close>, \<open>main\<close> is rejected with that error after the repository check and that
    one command: no later subcommand runs.
  \<^item> Provided the four listings succeed, the repository check passes and \<open>--force\<close> or
    \<open>--dry-run\<close> is given, \<open>main\<close> runs to its end, and under \<open>all\<close> its events are those
    of the merged, stale, gone and large sections one after the other, then \<open>Done!\<close>.
  \<^item> \<open>main\<close> ends by \<open>process.exit\<close> exactly when a command is given and the repository
    check fails, and then with code 1.
\<close>

theorem caught_failures:
  assumes flags: "dryRun = (''--dry-run'' \<in> set args)" "force = (''--force'' \<in> set args)"
    "days = (if ''--days'' \<in> set args then parseIntArg (argAfter ''--days'' args) else Some 30)"
    "topN = (if ''--top'' \<in> set args then parseIntArg (argAfter ''--top'' args) else Some 10)"
  shows
  "(listingsSucceed sys \<longrightarrow>
      (\<forall>msg. outcome (main sys args w) \<noteq> Inl (Thrown msg))
      \<and> (\<exists>xs. outcome (getMergedBranches sys w) = Inr xs)
      \<and> (\<forall>d. \<exists>xs. outcome (getStaleBranches sys d w) = Inr xs)
      \<and> (\<exists>xs. outcome (getGoneBranches sys w) = Inr xs))
   \<and> (\<forall>count. \<exists>xs. outcome (getLargeFiles sys count w) = Inr xs)
   \<and> (\<forall>count msg. fst (execSync sys (largeCmd count) w) = Inl msg \<longrightarrow>
         outcome (getLargeFiles sys count w) = Inr [])
   \<and> (\<forall>current w1 e1 defaultBranch w2 e2 msg.
         run sys ''git branch --show-current'' False w = (Inr current, w1, e1) \<longrightarrow>
         getDefaultBranch sys w1 = (Inr defaultBranch, w2, e2) \<longrightarrow>
         fst (execSync sys (''git branch --merged '' @ defaultBranch) w2) = Inl msg \<longrightarrow>
         outcome (getMergedBranches sys w) = Inr [])
   \<and> (\<forall>msg d. fst (execSync sys ''git branch --show-current'' w) = Inl msg \<longrightarrow>
         outcome (getMergedBranches sys w) = Inl (Thrown msg)
         \<and> outcome (getStaleBranches sys d w) = Inl (Thrown msg))
   \<and> (\<forall>out w1 msg.
         firstArg args = Some ''merged'' \<or> firstArg args = Some ''all'' \<longrightarrow>
         execSync sys ''git rev-parse --git-dir'' w = (Inr out, w1) \<longrightarrow>
         fst (execSync sys ''git branch --show-current'' w1) = Inl msg \<longrightarrow>
         outcome (main sys args w) = Inl (Thrown msg)
         \<and> commands (events (main sys args w))
             = [''git rev-parse --git-dir'', ''git branch --show-current''])
   \<and> (\<forall>m msg.
         fst (execSync sys ''git remote'' w) = Inl m \<longrightarrow>
         fst (execSync sys ''git branch -a'' (snd (execSync sys ''git remote'' w))) = Inl msg \<longrightarrow>
         outcome (getDefaultBranch sys w) = Inl (Thrown msg))
   \<and> (\<forall>remotes w1 e1 w2 e2 msg.
         run sys ''git remote'' False w = (Inr remotes, w1, e1) \<longrightarrow>
         run sys (''git symbolic-ref refs/remotes/''
                  @ (if (case split (CHR 0x0A) remotes of [] \<Rightarrow> [] | r # _ \<Rightarrow> r) = [] then ''origin''
                     else (case split (CHR 0x0A) remotes of [] \<Rightarrow> [] | r # _ \<Rightarrow> r))
                  @ ''/HEAD'') True w1 = (Inr [], w2, e2) \<longrightarrow>
         fst (execSync sys ''git branch -a'' w2) = Inl msg \<longrightarrow>
         outcome (getDefaultBranch sys w) = Inl (Thrown msg))
   \<and> (\<forall>current w1 e1 defaultBranch w2 e2 msg d.
         run sys ''git branch --show-current'' False w = (Inr current, w1, e1) \<longrightarrow>
         getDefaultBranch sys w1 = (Inr defaultBranch, w2, e2) \<longrightarrow>
         fst (execSync sys ''git branch'' w2) = Inl msg \<longrightarrow>
         outcome (getStaleBranches sys d w) = Inl (Thrown msg))
   \<and> (\<forall>msg. fst (execSync sys ''git branch -vv'' (snd (execSync sys ''git fetch --prune'' w))) = Inl msg \<longrightarrow>
         outcome (getGoneBranches sys w) = Inl (Thrown msg))
   \<and> (listingsSucceed sys \<longrightarrow> \<not> isHelp args \<longrightarrow> dryRun \<or> force \<longrightarrow>
        (\<forall>out. fst (execSync sys ''git rev-parse --git-dir'' w) = Inr out \<longrightarrow>
               outcome (main sys args w) = Inr ()))
   \<and> (listingsSucceed sys \<longrightarrow> firstArg args = Some ''all'' \<longrightarrow> dryRun \<or> force \<longrightarrow>
        (\<forall>out w1. execSync sys ''git rev-parse --git-dir'' w = (Inr out, w1) \<longrightarrow>
           events (main sys args w) =
             Exec ''git rev-parse --git-dir'' True
             # Log (c cyan (nl @ symBroom @ '' git-cleanup'' @ nl))
             # events (mergedSection sys dryRun force w1)
             @ events (staleSection sys dryRun force days (world (mergedSection sys dryRun force w1)))
             @ events (goneSection sys dryRun force
                 (world (staleSection sys dryRun force days (world (mergedSection sys dryRun force w1)))))
             @ events (largeSection sys topN
                 (world (goneSection sys dryRun force
                    (world (staleSection sys dryRun force days
                       (world (mergedSection sys dryRun force w1)))))))
             @ [Log (c dim (''Done!'' @ nl))]))
   \<and> (\<forall>n. outcome (main sys args w) = Inl (Exited n) \<longleftrightarrow>
         n = 1 \<and> \<not> isHelp args \<and> (\<exists>msg. fst (execSync sys ''git rev-parse --git-dir'' w) = Inl msg))"
proof (intro conjI allI impI)
  fix msg
  assume "listingsSucceed sys"
  then show "outcome (main sys args w) \<noteq> Inl (Thrown msg)"
    by (rule main_never_throws)
next
  assume "listingsSucceed sys"
  then show "\<exists>xs. outcome (getMergedBranches sys w) = Inr xs"
    by (rule enumerators_return)
next
  fix d
  assume "listingsSucceed sys"
  then show "\<exists>xs. outcome (getStaleBranches sys d w) = Inr xs"
    by (rule enumerators_return)
next
  assume "listingsSucceed sys"
  then show "\<exists>xs. outcome (getGoneBranches sys w) = Inr xs"
    by (rule enumerators_return)
next
  fix count
  show "\<exists>xs. outcome (getLargeFiles sys count w) = Inr xs"
    by (rule getLargeFiles_returns)
next
  fix count msg
  assume "fst (execSync sys (largeCmd count) w) = Inl msg"
  then show "outcome (getLargeFiles sys count w) = Inr []"
    by (rule getLargeFiles_failure)
next
  fix current w1 e1 defaultBranch w2 e2 msg
  assume "run sys ''git branch --show-current'' False w = (Inr current, w1, e1)"
    "getDefaultBranch sys w1 = (Inr defaultBranch, w2, e2)"
    "fst (execSync sys (''git branch --merged '' @ defaultBranch) w2) = Inl msg"
  then show "outcome (getMergedBranches sys w) = Inr []"
    by (rule getMergedBranches_failure)
next
  fix msg d
  assume a: "fst (execSync sys ''git branch --show-current'' w) = Inl msg"
  show "outcome (getMergedBranches sys w) = Inl (Thrown msg)"
    using a by (rule show_current_failure)
  show "outcome (getStaleBranches sys d w) = Inl (Thrown msg)"
    using a by (rule show_current_failure)
next
  fix out w1 msg
  assume a: "firstArg args = Some ''merged'' \<or> firstArg args = Some ''all''"
    "execSync sys ''git rev-parse --git-dir'' w = (Inr out, w1)"
    "fst (execSync sys ''git branch --show-current'' w1) = Inl msg"
  show "outcome (main sys args w) = Inl (Thrown msg)"
    by (rule main_aborts_on_show_current [OF a])
  show "commands (events (main sys args w)) = [''git rev-parse --git-dir'', ''git branch --show-current'']"
    by (rule main_aborts_on_show_current [OF a])
next
  fix m msg
  assume "fst (execSync sys ''git remote'' w) = Inl m"
    "fst (execSync sys ''git branch -a'' (snd (execSync sys ''git remote'' w))) = Inl msg"
  then show "outcome (getDefaultBranch sys w) = Inl (Thrown msg)"
    by (rule branch_a_failure_no_remote)
next
  fix remotes w1 e1 w2 e2 msg
  assume "run sys ''git remote'' False w = (Inr remotes, w1, e1)"
    "run sys (''git symbolic-ref refs/remotes/''
                  @ (if (case split (CHR 0x0A) remotes of [] \<Rightarrow> [] | r # _ \<Rightarrow> r) = [] then ''origin''
                     else (case split (CHR 0x0A) remotes of [] \<Rightarrow> [] | r # _ \<Rightarrow> r))
                  @ ''/HEAD'') True w1 = (Inr [], w2, e2)"
    "fst (execSync sys ''git branch -a'' w2) = Inl msg"
  then show "outcome (getDefaultBranch sys w) = Inl (Thrown msg)"
    by (rule branch_a_failure_no_head)
next
  fix current w1 e1 defaultBranch w2 e2 msg d
  assume "run sys ''git branch --show-current'' False w = (Inr current, w1, e1)"
    "getDefaultBranch sys w1 = (Inr defaultBranch, w2, e2)"
    "fst (execSync sys ''git branch'' w2) = Inl msg"
  then show "outcome (getStaleBranches sys d w) = Inl (Thrown msg)"
    by (rule branch_failure)
next
  fix msg
  assume "fst (execSync sys ''git branch -vv'' (snd (execSync sys ''git fetch --prune'' w))) = Inl msg"
  then show "outcome (getGoneBranches sys w) = Inl (Thrown msg)"
    by (rule branch_vv_failure)
next
  fix out
  assume a: "listingsSucceed sys" "\<not> isHelp args" "dryRun \<or> force"
    "fst (execSync sys ''git rev-parse --git-dir'' w) = Inr out"
  from a(3) have "''--force'' \<in> set args \<or> ''--dry-run'' \<in> set args"
    by (auto simp: flags)
  with a(1) have "outcome (mainBody sys args w') = Inr ()" for w'
    by (rule mainBody_completes)
  with a(2,4) show "outcome (main sys args w) = Inr ()"
    by (simp add: outcome_main)
next
  fix out w1
  assume a: "listingsSucceed sys" "firstArg args = Some ''all''" "dryRun \<or> force"
    "execSync sys ''git rev-parse --git-dir'' w = (Inr out, w1)"
  show "events (main sys args w) =
             Exec ''git rev-parse --git-dir'' True
             # Log (c cyan (nl @ symBroom @ '' git-cleanup'' @ nl))
             # events (mergedSection sys dryRun force w1)
             @ events (staleSection sys dryRun force days (world (mergedSection sys dryRun force w1)))
             @ events (goneSection sys dryRun force
                 (world (staleSection sys dryRun force days (world (mergedSection sys dryRun force w1)))))
             @ events (largeSection sys topN
                 (world (goneSection sys dryRun force
                    (world (staleSection sys dryRun force days
                       (world (mergedSection sys dryRun force w1)))))))
             @ [Log (c dim (''Done!'' @ nl))]"
    using a(2,4)
    by (simp add: events_main not_isHelp mainBody_all_events [OF a(1) a(3) a(2) flags])
next
  fix n
  show "outcome (main sys args w) = Inl (Exited n) \<longleftrightarrow>
         n = 1 \<and> \<not> isHelp args \<and> (\<exists>msg. fst (execSync sys ''git rev-parse --git-dir'' w) = Inl msg)"
    by (rule main_exits_iff)
qed

lemma listingsSucceed_flakySys: "listingsSucceed flakySys"
  by (simp add: listingsSucceed_def alwaysSucceeds_def flakySys_def flakyExec_def)

theorem caught_failures_witness:
  "listingsSucceed flakySys
   \<and> outcome (main flakySys [''all'', ''--force''] ()) = Inr ()
   \<and> commands (events (main flakySys [''all'', ''--force''] ())) =
       [''git rev-parse --git-dir'', ''git branch --show-current'', ''git remote'', ''git branch -a'',
        ''git branch --merged main'', ''git branch --show-current'', ''git remote'', ''git branch -a'',
        ''git branch'', ''git log -1 --format=%ci old'', ''git fetch --prune'', ''git branch -vv'',
        ''git branch -D old'', largeCmd (Some 10)]
   \<and> outcome (getLargeFiles flakySys (Some 10) ()) = Inr []
   \<and> outcome (main oldGitSys [''all'', ''--force''] ())
       = Inl (Thrown ''Command failed: git branch --show-current'')
   \<and> commands (events (main oldGitSys [''all'', ''--force''] ()))
       = [''git rev-parse --git-dir'', ''git branch --show-current'']
   \<and> outcome (getDefaultBranch (answering ''y'') ()) = Inl (Thrown ''Command failed'')
   \<and> outcome (main (answering ''y'') [''merged''] ()) = Inl (Exited 1)"
proof -
  have f1: "False = (''--dry-run'' \<in> set [''all'', ''--force''])" by simp
  have f2: "True = (''--force'' \<in> set [''all'', ''--force''])" by simp
  have f3: "Some 30 = (if ''--days'' \<in> set [''all'', ''--force'']
                        then parseIntArg (argAfter ''--days'' [''all'', ''--force'']) else Some 30)"
    by simp
  have f4: "Some 10 = (if ''--top'' \<in> set [''all'', ''--force'']
                        then parseIntArg (argAfter ''--top'' [''all'', ''--force'']) else Some 10)"
    by simp
  note T = caught_failures [OF f1 f2 f3 f4, of flakySys "()"]
  note U = caught_failures [OF f1 f2 f3 f4, of oldGitSys "()"]
  have g1: "False = (''--dry-run'' \<in> set [''merged''])" by simp
  have g2: "False = (''--force'' \<in> set [''merged''])" by simp
  have g3: "Some 30 = (if ''--days'' \<in> set [''merged'']
                        then parseIntArg (argAfter ''--days'' [''merged'']) else Some 30)"
    by simp
  have g4: "Some 10 = (if ''--top'' \<in> set [''merged'']
                        then parseIntArg (argAfter ''--top'' [''merged'']) else Some 10)"
    by simp
  note V = caught_failures [OF g1 g2 g3 g4, of "answering ''y''" "()"]
  have nh: "\<not> isHelp [''all'', ''--force'']"
    by (simp add: isHelp_def firstArg_def)
  have fl: "False \<or> True" by simp
  have r: "fst (execSync flakySys ''git rev-parse --git-dir'' ()) = Inr (''.git'' @ nl)"
    by code_simp
  have completed: "outcome (main flakySys [''all'', ''--force''] ()) = Inr ()"
    by (rule T [THEN conjunct2, THEN conjunct2, THEN conjunct2, THEN conjunct2, THEN conjunct2, THEN conjunct2, THEN conjunct2, THEN conjunct2, THEN conjunct2, THEN conjunct2, THEN conjunct1, rule_format, OF listingsSucceed_flakySys nh fl r])
  have l: "fst (execSync flakySys (largeCmd (Some 10)) ()) = Inl (''Command failed: '' @ largeCmd (Some 10))"
    by code_simp
  have large: "outcome (getLargeFiles flakySys (Some 10) ()) = Inr []"
    by (rule T [THEN conjunct2, THEN conjunct2, THEN conjunct1, rule_format, OF l])
  have a: "firstArg [''all'', ''--force''] = Some ''merged'' \<or> firstArg [''all'', ''--force''] = Some ''all''"
    by (simp add: firstArg_def)
  have ro: "execSync oldGitSys ''git rev-parse --git-dir'' () = (Inr (''.git'' @ nl), ())"
    by code_simp
  have s: "fst (execSync oldGitSys ''git branch --show-current'' ())
             = Inl ''Command failed: git branch --show-current''"
    by code_simp
  note aborted = U [THEN conjunct2, THEN conjunct2, THEN conjunct2, THEN conjunct2, THEN conjunct2, THEN conjunct1, rule_format, OF a ro s]
  have rm: "fst (execSync (answering ''y'') ''git remote'' ()) = Inl ''Command failed''"
    by code_simp
  have ba: "fst (execSync (answering ''y'') ''git branch -a''
                   (snd (execSync (answering ''y'') ''git remote'' ()))) = Inl ''Command failed''"
    by code_simp
  have dflt: "outcome (getDefaultBranch (answering ''y'') ()) = Inl (Thrown ''Command failed'')"
    by (rule V [THEN conjunct2, THEN conjunct2, THEN conjunct2, THEN conjunct2, THEN conjunct2, THEN conjunct2, THEN conjunct1, rule_format, OF rm ba])
  have nhm: "\<not> isHelp [''merged'']"
    by (simp add: isHelp_def firstArg_def)
  have rp: "fst (execSync (answering ''y'') ''git rev-parse --git-dir'' ()) = Inl ''Command failed''"
    by code_simp
  have "outcome (main (answering ''y'') [''merged''] ()) = Inl (Exited 1) \<longleftrightarrow>
          (1::int) = 1 \<and> \<not> isHelp [''merged'']
          \<and> (\<exists>msg. fst (execSync (answering ''y'') ''git rev-parse --git-dir'' ()) = Inl msg)"
    by (rule V [THEN conjunct2, THEN conjunct2, THEN conjunct2, THEN conjunct2, THEN conjunct2, THEN conjunct2, THEN conjunct2, THEN conjunct2, THEN conjunct2, THEN conjunct2, THEN conjunct2, THEN conjunct2, rule_format])
  then have exited: "outcome (main (answering ''y'') [''merged''] ()) = Inl (Exited 1)"
    using nhm rp by simp
  have cmds: "commands (events (main flakySys [''all'', ''--force''] ())) =
       [''git rev-parse --git-dir'', ''git branch --show-current'', ''git remote'', ''git branch -a'',
        ''git branch --merged main'', ''git branch --show-current'', ''git remote'', ''git branch -a'',
        ''git branch'', ''git log -1 --format=%ci old'', ''git fetch --prune'', ''git branch -vv'',
        ''git branch -D old'', largeCmd (Some 10)]"
    by code_simp
  from listingsSucceed_flakySys completed cmds large aborted [THEN conjunct1]
    aborted [THEN conjunct2] dflt exited show ?thesis
    by (intro conjI)
qed

section \<open>The default branch\<close>

text \<open>
  C6: the fallback looks for \<open>main\<close> among all branches by testing whether the text
  \<open>main\<close> occurs anywhere in the output of \<open>git branch -a\<close>. In a repository without a
  remote whose branches are \<open>maintenance\<close> and \<open>master\<close>, no branch is named \<open>main\<close> and
  \<open>master\<close> is present, yet \<open>getDefaultBranch\<close> returns \<open>main\<close>, and the merged
  enumerator then asks git for the branches merged into a branch that does not exist.
\<close>

theorem default_branch_substring_match:
  "map (\<lambda>b. stripStar (trim b)) (split (CHR 0x0A) (trim (''* maintenance'' @ nl @ ''  master'' @ nl)))
     = [''maintenance'', ''master'']
   \<and> getDefaultBranch maintenanceSys () =
       (Inr ''main'', (),
        [Exec ''git remote'' True, Exec ''git symbolic-ref refs/remotes/origin/HEAD'' False,
         Exec ''git branch -a'' True])
   \<and> commands (events (getMergedBranches maintenanceSys ())) =
       [''git branch --show-current'', ''git remote'', ''git symbolic-ref refs/remotes/origin/HEAD'',
        ''git branch -a'', ''git branch --merged main'']"
  by code_simp

section \<open>The current and the default branch are never candidates\<close>

text \<open>
  C2: in every state of the world, a list returned by \<open>getMergedBranches\<close> or by
  \<open>getStaleBranches\<close> contains neither the current branch (what
  \<open>git branch --show-current\<close> printed) nor the default branch (what \<open>getDefaultBranch\<close>
  returned).
\<close>

theorem enumerators_exclude_current_and_default:
  assumes "run sys ''git branch --show-current'' False w = (Inr current, w1, e1)"
    and "getDefaultBranch sys w1 = (Inr defaultBranch, w2, e2)"
  shows "(\<forall>merged w' es. getMergedBranches sys w = (Inr merged, w', es) \<longrightarrow>
            current \<notin> set merged \<and> defaultBranch \<notin> set merged)
       \<and> (\<forall>days stale w' es. getStaleBranches sys days w = (Inr stale, w', es) \<longrightarrow>
            current \<notin> branch ` set stale \<and> defaultBranch \<notin> branch ` set stale)"
proof (intro conjI allI impI)
  fix merged w' es
  assume "getMergedBranches sys w = (Inr merged, w', es)"
  then have "outcome (getMergedBranches sys w) = Inr merged" by simp
  then have "\<exists>xs. merged = filter (\<lambda>b. b \<noteq> [] \<and> b \<noteq> current \<and> b \<noteq> defaultBranch
                                       \<and> \<not> startsWith b ''remotes/'') xs"
    unfolding getMergedBranches_outcome [OF assms] by blast
  then have m: "set merged \<subseteq> {b. b \<noteq> current \<and> b \<noteq> defaultBranch}"
    by auto
  from m show "current \<notin> set merged" by auto
  from m show "defaultBranch \<notin> set merged" by auto
next
  fix days stale w' es
  assume "getStaleBranches sys days w = (Inr stale, w', es)"
  then have "outcome (getStaleBranches sys days w) = Inr stale" by simp
  then obtain cutoff bs w3 xs where
    xs: "outcome (staleLoop sys cutoff
           (filter (\<lambda>b. b \<noteq> [] \<and> b \<noteq> current \<and> b \<noteq> defaultBranch) bs) [] w3) = Inr xs"
    and st: "stale = sort_key (\<lambda>x. - daysAgo x) xs"
    using assms
    by (auto simp: getStaleBranches_def Let_def outcome_bindP world_bindP split: sum.splits)
  from staleLoop_subset [OF xs] st
  have s: "branch ` set stale \<subseteq> {b. b \<noteq> current \<and> b \<noteq> defaultBranch}"
    by auto
  from s show "current \<notin> branch ` set stale" by auto
  from s show "defaultBranch \<notin> branch ` set stale" by auto
qed

text \<open>
  In the demo repository both listings print \<open>* dev\<close> and \<open>main\<close>; neither is returned.
\<close>

theorem enumerators_exclude_current_and_default_witness:
  "outcome (getMergedBranches (demoSys None) [''feature/a'', ''old''])
     = Inr [''feature/a'']
   \<and> ''dev'' \<notin> set [''feature/a''] \<and> ''main'' \<notin> set [''feature/a'']
   \<and> outcome (getStaleBranches (demoSys None) (Some 30) [''feature/a'', ''old''])
     = Inr [\<lparr>branch = ''old'', daysAgo = 61\<rparr>]
   \<and> ''dev'' \<notin> branch ` set [\<lparr>branch = ''old'', daysAgo = 61\<rparr>]
   \<and> ''main'' \<notin> branch ` set [\<lparr>branch = ''old'', daysAgo = 61\<rparr>]"
proof -
  have cur: "run (demoSys None) ''git branch --show-current'' False [''feature/a'', ''old'']
               = (Inr ''dev'', [''feature/a'', ''old''], [Exec ''git branch --show-current'' True])"
    by code_simp
  have dflt: "getDefaultBranch (demoSys None) [''feature/a'', ''old'']
               = (Inr ''main'', [''feature/a'', ''old''],
                  [Exec ''git remote'' True, Exec ''git symbolic-ref refs/remotes/origin/HEAD'' True])"
    by code_simp
  note T = enumerators_exclude_current_and_default [OF cur dflt]
  have m: "getMergedBranches (demoSys None) [''feature/a'', ''old'']
             = (Inr [''feature/a''], [''feature/a'', ''old''],
                [Exec ''git branch --show-current'' True, Exec ''git remote'' True,
                 Exec ''git symbolic-ref refs/remotes/origin/HEAD'' True,
                 Exec ''git branch --merged main'' True])"
    by code_simp
  have s: "getStaleBranches (demoSys None) (Some 30) [''feature/a'', ''old'']
             = (Inr [\<lparr>branch = ''old'', daysAgo = 61\<rparr>], [''feature/a'', ''old''],
                [Exec ''git branch --show-current'' True, Exec ''git remote'' True,
                 Exec ''git symbolic-ref refs/remotes/origin/HEAD'' True, Exec ''git branch'' True,
                 Exec ''git log -1 --format=%ci feature/a'' True,
                 Exec ''git log -1 --format=%ci old'' True])"
    by code_simp
  from T m have a: "''dev'' \<notin> set [''feature/a''] \<and> ''main'' \<notin> set [''feature/a'']"
    by blast
  from T s have b: "''dev'' \<notin> branch ` set [\<lparr>branch = ''old'', daysAgo = 61\<rparr>]
                   \<and> ''main'' \<notin> branch ` set [\<lparr>branch = ''old'', daysAgo = 61\<rparr>]"
    by blast
  from a b m s show ?thesis by simp
qed

section \<open>Stale branches\<close>

text \<open>
  C1: the cutoff is strict. Let the two lookups return the current and the default
  branch, let \<open>git branch\<close> print \<open>out\<close>, and let \<open>lg b\<close> be what
  \<open>git log -1 --format=%ci b\<close> gives while the loop runs (\<open>W\<close> is a set of states of the
  world that these commands do not leave and on which their result does not change).
  Then \<open>getStaleBranches\<close> returns, and a branch is in its result exactly when it is a
  listed branch other than the current and the default one, its log is printed and
  parses to a timestamp \<open>t\<close>, the threshold is a number \<open>d\<close> of days, and
  \<open>t < now - d\<close> days, \<open>now\<close> being the clock when the cutoff is computed. A branch whose
  timestamp equals the cutoff is therefore not in the result.
\<close>

theorem stale_strict_cutoff:
  assumes cur: "run sys ''git branch --show-current'' False w = (Inr current, w1, e1)"
    and dflt: "getDefaultBranch sys w1 = (Inr defaultBranch, w2, e2)"
    and listing: "run sys ''git branch'' False w2 = (Inr out, w3, e3)"
    and start: "w3 \<in> W"
    and inv: "\<forall>b. \<forall>w' \<in> W.
      snd (execSync sys (''git log -1 --format=%ci '' @ b) w') \<in> W
      \<and> fst (execSync sys (''git log -1 --format=%ci '' @ b) w') = lg b"
  shows "\<exists>stale w' es.
     getStaleBranches sys days w = (Inr stale, w', es)
     \<and> (\<forall>b. b \<in> branch ` set stale \<longleftrightarrow>
            b \<in> set (filter (\<lambda>b. b \<noteq> [] \<and> b \<noteq> current \<and> b \<noteq> defaultBranch)
                       (map (\<lambda>b. stripStar (trim b)) (split (CHR 0x0A) out)))
            \<and> (\<exists>s t d. lg b = Inr s \<and> dateParse sys (trim s) = Some t \<and> days = Some d
                        \<and> t < dateNow sys w2 - d * (24 * 60 * 60 * 1000)))"
proof -
  let ?bs = "filter (\<lambda>b. b \<noteq> [] \<and> b \<noteq> current \<and> b \<noteq> defaultBranch)
               (map (\<lambda>b. stripStar (trim b)) (split (CHR 0x0A) out))"
  let ?cutoff = "case days of None \<Rightarrow> None
                 | Some d \<Rightarrow> Some (dateNow sys w2 - d * 24 * 60 * 60 * 1000)"
  from inv have inv': "\<And>b w'. w' \<in> W \<Longrightarrow>
      snd (execSync sys (''git log -1 --format=%ci '' @ b) w') \<in> W
      \<and> fst (execSync sys (''git log -1 --format=%ci '' @ b) w') = lg b"
    by blast
  from staleLoop_branches [of W sys lg w3 ?cutoff ?bs "[]", OF inv' start]
  obtain xs where
    xs: "outcome (staleLoop sys ?cutoff ?bs [] w3) = Inr xs"
    and br: "branch ` set xs =
           {b \<in> set ?bs. \<exists>s t co. lg b = Inr s \<and> dateParse sys (trim s) = Some t
                                   \<and> ?cutoff = Some co \<and> t < co}"
    by auto
  have res: "outcome (getStaleBranches sys days w) = Inr (sort_key (\<lambda>x. - daysAgo x) xs)"
    using cur dflt listing xs
    by (simp add: getStaleBranches_def Let_def outcome_bindP world_bindP)
  have cut: "(\<exists>s t co. lg b = Inr s \<and> dateParse sys (trim s) = Some t \<and> ?cutoff = Some co \<and> t < co)
      \<longleftrightarrow> (\<exists>s t d. lg b = Inr s \<and> dateParse sys (trim s) = Some t \<and> days = Some d
                        \<and> t < dateNow sys w2 - d * (24 * 60 * 60 * 1000))" for b
    by (cases days) auto
  have "\<forall>b. b \<in> branch ` set (sort_key (\<lambda>x. - daysAgo x) xs) \<longleftrightarrow>
            b \<in> set ?bs
            \<and> (\<exists>s t d. lg b = Inr s \<and> dateParse sys (trim s) = Some t \<and> days = Some d
                        \<and> t < dateNow sys w2 - d * (24 * 60 * 60 * 1000))"
    using br cut by (simp del: set_filter)
  moreover have "getStaleBranches sys days w =
      (Inr (sort_key (\<lambda>x. - daysAgo x) xs), world (getStaleBranches sys days w),
       events (getStaleBranches sys days w))"
    using res by (metis prod.collapse)
  ultimately show ?thesis by blast
qed

text \<open>
  With \<open>--days 60\<close> in the demo repository, \<open>old\<close> (61 days ago) is stale; \<open>edge\<close>
  (60 days ago to the millisecond) and \<open>recent\<close> (59 days ago) are not.
\<close>

theorem stale_strict_cutoff_witness:
  "(\<exists>stale w' es.
      getStaleBranches (demoSys None) (Some 60) [''old'', ''edge'', ''recent''] = (Inr stale, w', es)
      \<and> ''old'' \<in> branch ` set stale \<and> ''edge'' \<notin> branch ` set stale
      \<and> ''recent'' \<notin> branch ` set stale)
   \<and> outcome (getStaleBranches (demoSys None) (Some 60) [''old'', ''edge'', ''recent''])
       = Inr [\<lparr>branch = ''old'', daysAgo = 61\<rparr>]
   \<and> parseIntArg (argAfter ''--days'' [''stale'', ''--days'', ''60'']) = Some 60"
proof -
  let ?S = "demoSys None"
  let ?w = "[''old'', ''edge'', ''recent'']"
  let ?lg = "\<lambda>b. fst (execSync ?S (''git log -1 --format=%ci '' @ b) ?w)"
  have cur: "run ?S ''git branch --show-current'' False ?w
               = (Inr ''dev'', ?w, [Exec ''git branch --show-current'' True])"
    by code_simp
  have dflt: "getDefaultBranch ?S ?w
               = (Inr ''main'', ?w,
                  [Exec ''git remote'' True, Exec ''git symbolic-ref refs/remotes/origin/HEAD'' True])"
    by code_simp
  have listing: "run ?S ''git branch'' False ?w
               = (Inr (''* dev'' @ nl @ ''  old'' @ nl @ ''  edge'' @ nl @ ''  recent'' @ nl @ ''  main''),
                  ?w, [Exec ''git branch'' True])"
    by code_simp
  have start: "?w \<in> {?w}" by simp
  have inv: "\<forall>b. \<forall>w' \<in> {?w}.
      snd (execSync ?S (''git log -1 --format=%ci '' @ b) w') \<in> {?w}
      \<and> fst (execSync ?S (''git log -1 --format=%ci '' @ b) w') = ?lg b"
    by (auto simp only: demo_log_keeps_world)
  have cands: "filter (\<lambda>b. b \<noteq> [] \<and> b \<noteq> ''dev'' \<and> b \<noteq> ''main'')
                 (map (\<lambda>b. stripStar (trim b))
                    (split (CHR 0x0A)
                       (''* dev'' @ nl @ ''  old'' @ nl @ ''  edge'' @ nl @ ''  recent'' @ nl @ ''  main'')))
               = [''old'', ''edge'', ''recent'']"
    by code_simp
  have clock: "dateNow ?S ?w = 1717243200000"
    by code_simp
  have lgO: "?lg ''old'' = Inr (''2024-04-01 12:00:00 +0000'' @ nl)"
    and lgE: "?lg ''edge'' = Inr (''2024-04-02 12:00:00 +0000'' @ nl)"
    and lgR: "?lg ''recent'' = Inr (''2024-04-03 12:00:00 +0000'' @ nl)"
    by code_simp+
  have pO: "dateParse ?S (trim (''2024-04-01 12:00:00 +0000'' @ nl)) = Some 1711972800000"
    and pE: "dateParse ?S (trim (''2024-04-02 12:00:00 +0000'' @ nl)) = Some 1712059200000"
    and pR: "dateParse ?S (trim (''2024-04-03 12:00:00 +0000'' @ nl)) = Some 1712145600000"
    by code_simp+
  have ev: "outcome (getStaleBranches ?S (Some 60) ?w) = Inr [\<lparr>branch = ''old'', daysAgo = 61\<rparr>]"
    by code_simp
  have days: "parseIntArg (argAfter ''--days'' [''stale'', ''--days'', ''60'']) = Some 60"
    by code_simp
  from stale_strict_cutoff [OF cur dflt listing start inv, of "Some 60"]
  show ?thesis
  proof (elim exE conjE)
    fix stale w' es
    assume res: "getStaleBranches ?S (Some 60) ?w = (Inr stale, w', es)"
      and iffs: "\<forall>b. b \<in> branch ` set stale \<longleftrightarrow>
            b \<in> set (filter (\<lambda>b. b \<noteq> [] \<and> b \<noteq> ''dev'' \<and> b \<noteq> ''main'')
                       (map (\<lambda>b. stripStar (trim b))
                          (split (CHR 0x0A)
                             (''* dev'' @ nl @ ''  old'' @ nl @ ''  edge'' @ nl @ ''  recent'' @ nl @ ''  main''))))
            \<and> (\<exists>s t d. ?lg b = Inr s \<and> dateParse ?S (trim s) = Some t \<and> Some 60 = Some d
                        \<and> t < dateNow ?S ?w - d * (24 * 60 * 60 * 1000))"
    note iff = iffs [rule_format]
    have old: "''old'' \<in> branch ` set stale"
      unfolding iff cands clock using lgO pO by simp
    have edge: "''edge'' \<notin> branch ` set stale"
      unfolding iff cands clock using lgE pE by simp
    have recent: "''recent'' \<notin> branch ` set stale"
      unfolding iff cands clock using lgR pR by simp
    from res old edge recent have
      "\<exists>stale w' es.
         getStaleBranches ?S (Some 60) ?w = (Inr stale, w', es)
         \<and> ''old'' \<in> branch ` set stale \<and> ''edge'' \<notin> branch ` set stale
         \<and> ''recent'' \<notin> branch ` set stale"
      by (intro exI conjI)
    with ev days show ?thesis by (intro conjI)
  qed
qed

end
